theory Spec2Isabelle
  imports Complex_Main "HOL-Library.AList"
begin

section \<open>Arrays\<close>

text \<open>
  The harness of \<^verbatim>\<open>offlinehelper.py\<close> works on two-dimensional numpy arrays of shape
  (time, channel). An array is modelled by its dtype tag, its channel count (kept
  apart from the rows, so that an array with no row still has a second dimension)
  and its rows. Samples are values of an abstract type with a zero; the conversion
  numpy applies when a value is stored into an array of another dtype is a
  parameter \<open>cast\<close> of every function that stores samples.
\<close>

datatype error =
    AssertionError string
  | KeyError string
  | AttributeError
  | ValueError
  | IndexError
  | ZeroDivisionError
  | RuntimeError

record 'a ndarray =
  dtype_of :: string
  ncols :: nat
  rows :: "'a list list"

definition shape0 :: "'a ndarray \<Rightarrow> nat" where
  "shape0 a = length (rows a)"

definition shape1 :: "'a ndarray \<Rightarrow> nat" where
  "shape1 a = ncols a"

text \<open>\<^verbatim>\<open>np.zeros((n, c), dtype=dtype)\<close> for sizes that are not negative.\<close>

definition zeros :: "nat \<Rightarrow> nat \<Rightarrow> string \<Rightarrow> ('a::zero) ndarray" where
  "zeros n c dtype = \<lparr>dtype_of = dtype, ncols = c, rows = replicate n (replicate c 0)\<rparr>"

text \<open>
  Python's normalisation of one bound of a slice \<^verbatim>\<open>a[start:stop]\<close> over \<open>n\<close> rows:
  a negative bound counts from the end, and the result is clipped to \<open>0..n\<close>.
\<close>

definition slice_index :: "nat \<Rightarrow> int \<Rightarrow> nat" where
  "slice_index n i =
     (if i < 0 then (if i + int n < 0 then 0 else nat (i + int n))
      else (if int n < i then n else nat i))"

text \<open>\<^verbatim>\<open>a[start:stop, :]\<close>: the rows from the normalised start up to the normalised stop
  (none when the stop is not after the start).\<close>

definition getslice :: "'a ndarray \<Rightarrow> int \<Rightarrow> int \<Rightarrow> 'a ndarray" where
  "getslice a start stop =
     (let lo = slice_index (shape0 a) start;
          hi = slice_index (shape0 a) stop
      in a\<lparr>rows := take (hi - lo) (drop lo (rows a))\<rparr>)"

text \<open>
  One row of the value of a slice assignment, as it is stored in a destination of
  \<open>c\<close> columns and dtype \<open>dt\<close>: a one-column row is broadcast over the columns, and the
  samples are converted when the dtypes differ.
\<close>

definition stored_row :: "(string \<Rightarrow> 'a \<Rightarrow> 'a) \<Rightarrow> string \<Rightarrow> nat \<Rightarrow> 'a ndarray \<Rightarrow> 'a list \<Rightarrow> 'a list" where
  "stored_row cast dt c v r =
     map (\<lambda>x. if dtype_of v = dt then x else cast dt x)
         (if ncols v = c then r else replicate c (r ! 0))"

text \<open>
  \<^verbatim>\<open>a[start:stop, :] = v\<close>. numpy raises ValueError unless each dimension of \<open>v\<close> is
  the dimension of the slice or 1; a single row is broadcast over the slice.
\<close>

definition setslice ::
  "(string \<Rightarrow> 'a \<Rightarrow> 'a) \<Rightarrow> 'a ndarray \<Rightarrow> int \<Rightarrow> int \<Rightarrow> 'a ndarray \<Rightarrow> error + 'a ndarray" where
  "setslice cast a start stop v =
     (let lo = slice_index (shape0 a) start;
          hi = slice_index (shape0 a) stop;
          m = hi - lo
      in if (shape0 v = m \<or> shape0 v = 1) \<and> (ncols v = ncols a \<or> ncols v = 1)
         then let vr = map (stored_row cast (dtype_of a) (ncols a) v) (rows v);
                  new = (if shape0 v = m then vr else replicate m (vr ! 0))
              in Inr (a\<lparr>rows := take lo (rows a) @ new @ drop (lo + m) (rows a)\<rparr>)
         else Inl ValueError)"

section \<open>The offline reassembler\<close>

text \<open>
  A processing result is a dict from stream name to a pair (position, data); the
  position is \<^verbatim>\<open>None\<close> or a Python integer, the data \<^verbatim>\<open>None\<close> or an array. The dict
  is an association list in the order of \<^verbatim>\<open>returns.items()\<close>.
\<close>

type_synonym 'a stream_out = "int option \<times> 'a ndarray option"
type_synonym 'a returns = "(string \<times> 'a stream_out) list"
type_synonym 'a online_arrs = "string \<rightharpoonup> 'a ndarray"

text \<open>
  The body of the inner loop of \<^verbatim>\<open>run_one_class_offline\<close> (lines 76 to 82) for one
  item \<^verbatim>\<open>k, (pos, out_chunk)\<close>. Reading \<^verbatim>\<open>out_chunk.shape\<close> of \<^verbatim>\<open>None\<close> raises
  AttributeError.
\<close>

definition store_chunk ::
  "(string \<Rightarrow> 'a \<Rightarrow> 'a) \<Rightarrow> nat \<Rightarrow> string \<Rightarrow> ('a::zero) online_arrs \<Rightarrow> string \<times> 'a stream_out
     \<Rightarrow> error + 'a online_arrs" where
  "store_chunk cast buffer_size dtype online_arrs item =
     (case item of (k, pos, out_chunk) \<Rightarrow>
        (case pos of
           None \<Rightarrow> Inr online_arrs
         | Some p \<Rightarrow>
            (case out_chunk of
               None \<Rightarrow> Inl AttributeError
             | Some c \<Rightarrow>
                (let dst = (case online_arrs k of
                              None \<Rightarrow> zeros buffer_size (shape1 c) dtype
                            | Some d \<Rightarrow> d)
                 in if shape0 (getslice dst (p - int (shape0 c)) p) = shape0 c
                    then (case setslice cast dst (p - int (shape0 c)) p c of
                            Inl e \<Rightarrow> Inl e
                          | Inr d' \<Rightarrow> Inr (online_arrs(k \<mapsto> d')))
                    else Inr (online_arrs(k \<mapsto> dst))))))"

text \<open>The inner loop over \<^verbatim>\<open>returns.items()\<close>; an exception ends it.\<close>

fun store_returns ::
  "(string \<Rightarrow> 'a \<Rightarrow> 'a) \<Rightarrow> nat \<Rightarrow> string \<Rightarrow> ('a::zero) online_arrs \<Rightarrow> 'a returns
     \<Rightarrow> error + 'a online_arrs" where
  "store_returns cast buffer_size dtype online_arrs [] = Inr online_arrs"
| "store_returns cast buffer_size dtype online_arrs (item # items) =
     (case store_chunk cast buffer_size dtype online_arrs item of
        Inl e \<Rightarrow> Inl e
      | Inr arrs' \<Rightarrow> store_returns cast buffer_size dtype arrs' items)"

section \<open>The chunk scheduler\<close>

text \<open>
  \<^verbatim>\<open>make_processing_loop\<close> reads its input through \<^verbatim>\<open>in_buffer.shape\<close> and
  \<^verbatim>\<open>in_buffer[start:stop, :]\<close> only, so that a numpy array and a \<^verbatim>\<open>WaveNumpy\<close> object
  both serve. The model of such an object is its shape and its range read, which
  may raise.
\<close>

record 'a in_buffer =
  buf_shape0 :: nat
  buf_shape1 :: nat
  getitem :: "int \<Rightarrow> int \<Rightarrow> error + 'a ndarray"

definition numpy_buffer :: "'a ndarray \<Rightarrow> 'a in_buffer" where
  "numpy_buffer a =
     \<lparr>buf_shape0 = shape0 a, buf_shape1 = shape1 a, getitem = (\<lambda>start stop. Inr (getslice a start stop))\<rparr>"

text \<open>\<^verbatim>\<open>np.zeros((chunksize, nb_channel), dtype=dtype)\<close> with a Python integer as first
  dimension: numpy refuses a negative dimension.\<close>

definition np_zeros :: "int \<Rightarrow> nat \<Rightarrow> string \<Rightarrow> error + ('a::zero) ndarray" where
  "np_zeros n c dtype = (if n < 0 then Inl ValueError else Inr (zeros (nat n) c dtype))"

text \<open>Lines 35 to 38: the chunk of the iteration whose advanced index is \<open>index\<close>.\<close>

definition in_chunk :: "('a::zero) in_buffer \<Rightarrow> int \<Rightarrow> string \<Rightarrow> int \<Rightarrow> error + 'a ndarray" where
  "in_chunk buf chunksize dtype index =
     (if index \<le> int (buf_shape0 buf) then getitem buf (index - chunksize) index
      else np_zeros chunksize (buf_shape1 buf) dtype)"

text \<open>
  The adapter is an object with state \<open>'s\<close> and one method, \<^verbatim>\<open>proccesing_func\<close>, which
  takes the index and the chunk and returns the result dict (or raises); the model
  passes the state explicitly. Chunks are values: an adapter that writes into the
  chunk it is given, which for a numpy buffer is a view of the input, is not
  modelled.
\<close>

type_synonym ('s, 'a) proccesing_func = "'s \<Rightarrow> int \<Rightarrow> 'a ndarray \<Rightarrow> error + 's \<times> 'a returns"

record 's loop_state =
  index :: int
  out_index :: "int option"
  processing :: 's

text \<open>The condition of the \<^verbatim>\<open>while\<close> of line 32.\<close>

definition loop_cond :: "nat \<Rightarrow> 's loop_state \<Rightarrow> bool" where
  "loop_cond buffer_size st =
     (case out_index st of None \<Rightarrow> True | Some oi \<Rightarrow> oi < int buffer_size)"

datatype ('s, 'a) resumed = Stop | Raise error | Yield "'s loop_state" "'a returns"

text \<open>One resumption of the generator inside the \<^verbatim>\<open>while\<close>: lines 32 to 49.\<close>

definition loop_next ::
  "('s, 'a::zero) proccesing_func \<Rightarrow> 'a in_buffer \<Rightarrow> int \<Rightarrow> string \<Rightarrow> 's loop_state \<Rightarrow> ('s, 'a) resumed" where
  "loop_next proc buf chunksize dtype st =
     (if loop_cond (buf_shape0 buf) st then
        (let index' = index st + chunksize
         in case in_chunk buf chunksize dtype index' of
              Inl e \<Rightarrow> Raise e
            | Inr c \<Rightarrow>
               (case proc (processing st) index' c of
                  Inl e \<Rightarrow> Raise e
                | Inr (s', returns) \<Rightarrow>
                   (case map_of returns ''main_output'' of
                      None \<Rightarrow> Raise (KeyError ''main_output'')
                    | Some (oi, out_chunk) \<Rightarrow>
                        Yield \<lparr>index = index', out_index = oi, processing = s'\<rparr> returns)))
      else Stop)"

text \<open>
  The generator as the list of the results it yields. The loop may run forever, so
  the model takes fuel, one unit for each iteration, and says how the run ended.
\<close>

datatype ending = Finished | Raised error | OutOfFuel

fun loop_iter ::
  "nat \<Rightarrow> ('s, 'a::zero) proccesing_func \<Rightarrow> 'a in_buffer \<Rightarrow> int \<Rightarrow> string \<Rightarrow> 's loop_state
     \<Rightarrow> 'a returns list \<times> 's loop_state \<times> ending" where
  "loop_iter 0 proc buf chunksize dtype st =
     ([], st, if loop_cond (buf_shape0 buf) st then OutOfFuel else Finished)"
| "loop_iter (Suc fuel) proc buf chunksize dtype st =
     (case loop_next proc buf chunksize dtype st of
        Stop \<Rightarrow> ([], st, Finished)
      | Raise e \<Rightarrow> ([], st, Raised e)
      | Yield st' returns \<Rightarrow>
         (case loop_iter fuel proc buf chunksize dtype st' of
            (ys, stf, en) \<Rightarrow> (returns # ys, stf, en)))"

text \<open>
  \<^verbatim>\<open>loop()\<close>: line 29 divides by the chunk size before the first iteration, then the
  index starts at 0 and the output index at \<^verbatim>\<open>None\<close>. The statistics of
  \<^verbatim>\<open>time_stats\<close> read the wall clock and are left out: the model is the generator
  with \<^verbatim>\<open>time_stats=False\<close>.
\<close>

definition loop ::
  "('s, 'a::zero) proccesing_func \<Rightarrow> 'a in_buffer \<Rightarrow> int \<Rightarrow> string \<Rightarrow> 's \<Rightarrow> nat
     \<Rightarrow> 'a returns list \<times> 's loop_state \<times> ending" where
  "loop proc buf chunksize dtype s0 fuel =
     (let st0 = \<lparr>index = 0, out_index = None, processing = s0\<rparr>
      in if chunksize = 0 then ([], st0, Raised ZeroDivisionError)
         else loop_iter fuel proc buf chunksize dtype st0)"

text \<open>
  \<^verbatim>\<open>make_processing_loop\<close>: the adapter is built by \<open>create\<close> (the class called with the
  channel count, the sample rate, the dtype and the configuration), and the result
  is the adapter with the generator function. \<^verbatim>\<open>buffer_size2\<close> is computed on line 20
  and never read.
\<close>

definition make_processing_loop ::
  "(nat \<Rightarrow> 'r \<Rightarrow> string \<Rightarrow> 'c \<Rightarrow> error + 's) \<Rightarrow> ('s, 'a::zero) proccesing_func \<Rightarrow> 'a in_buffer \<Rightarrow> int
     \<Rightarrow> 'r \<Rightarrow> string \<Rightarrow> 'c \<Rightarrow> int
     \<Rightarrow> error + 's \<times> (nat \<Rightarrow> 'a returns list \<times> 's loop_state \<times> ending)" where
  "make_processing_loop create proc buf chunksize sample_rate dtype processing_conf buffersize_margin =
     (let nb_channel = buf_shape1 buf;
          buffer_size = buf_shape0 buf;
          buffer_size2 = int (buf_shape0 buf) + buffersize_margin
      in case create nb_channel sample_rate dtype processing_conf of
           Inl e \<Rightarrow> Inl e
         | Inr s0 \<Rightarrow> Inr (s0, loop proc buf chunksize dtype s0))"

text \<open>The outer loop of \<^verbatim>\<open>run_one_class_offline\<close> over the yielded results.\<close>

fun store_all ::
  "(string \<Rightarrow> 'a \<Rightarrow> 'a) \<Rightarrow> nat \<Rightarrow> string \<Rightarrow> ('a::zero) online_arrs \<Rightarrow> 'a returns list
     \<Rightarrow> error + 'a online_arrs" where
  "store_all cast buffer_size dtype online_arrs [] = Inr online_arrs"
| "store_all cast buffer_size dtype online_arrs (returns # ys) =
     (case store_returns cast buffer_size dtype online_arrs returns of
        Inl e \<Rightarrow> Inl e
      | Inr arrs' \<Rightarrow> store_all cast buffer_size dtype arrs' ys)"

text \<open>
  \<^verbatim>\<open>run_one_class_offline\<close>. The consumer stores each result as it is yielded, so an
  exception of the consumer comes before a later exception of the generator. The
  value is \<open>None\<close> when the fuel does not reach the end of the loop; the adapter that
  is returned is the adapter after the last iteration.
\<close>

definition run_one_class_offline ::
  "nat \<Rightarrow> (string \<Rightarrow> 'a \<Rightarrow> 'a) \<Rightarrow> (nat \<Rightarrow> 'r \<Rightarrow> string \<Rightarrow> 'c \<Rightarrow> error + 's) \<Rightarrow> ('s, 'a::zero) proccesing_func
     \<Rightarrow> 'a in_buffer \<Rightarrow> int \<Rightarrow> 'r \<Rightarrow> string \<Rightarrow> 'c \<Rightarrow> int
     \<Rightarrow> (error + 's \<times> 'a online_arrs) option" where
  "run_one_class_offline fuel cast create proc buf chunksize sample_rate dtype processing_conf buffersize_margin =
     (case make_processing_loop create proc buf chunksize sample_rate dtype processing_conf buffersize_margin of
        Inl e \<Rightarrow> Some (Inl e)
      | Inr (s0, loop_fn) \<Rightarrow>
         (let buffer_size = buf_shape0 buf
          in case loop_fn fuel of
               (ys, stf, en) \<Rightarrow>
                 (case store_all cast buffer_size dtype Map.empty ys of
                    Inl e \<Rightarrow> Some (Inl e)
                  | Inr online_arrs \<Rightarrow>
                     (case en of
                        Finished \<Rightarrow> Some (Inr (processing stf, online_arrs))
                      | Raised e \<Rightarrow> Some (Inl e)
                      | OutOfFuel \<Rightarrow> None))))"

section \<open>Running on a numpy buffer\<close>


record ('lp, 'o) params =
  p_chunksize :: "int option"
  p_backward_chunksize :: "int option"
  p_loss_params :: "(string \<times> 'lp) list option"
  p_others :: 'o



section \<open>Running on a wave file\<close>

text \<open>
  The sound files are those of the library \<^verbatim>\<open>soundfile\<close>: a file has a sample rate,
  a channel count and frames, and the file system maps names to files. Opening a
  missing file for reading raises; opening a file for writing creates it empty;
  a seek outside the file raises; a read returns the frames that remain when
  fewer than the requested ones are there or the request is negative; a write
  appends the rows of an array whose channel count is the file's and raises
  ValueError otherwise.
\<close>

record 'a wavfile =
  samplerate :: nat
  channels :: nat
  frames :: "'a list list"

type_synonym 'a filesystem = "string \<rightharpoonup> 'a wavfile"

text \<open>\<^verbatim>\<open>WaveNumpy\<close>: the shape of the file, and \<^verbatim>\<open>__getitem__\<close> as seek then read. The
  file is not written during the run, whose output file has another name.\<close>

definition WaveNumpy :: "(string \<Rightarrow> 'a \<Rightarrow> 'a) \<Rightarrow> 'a wavfile \<Rightarrow> 'a in_buffer" where
  "WaveNumpy cast w =
     \<lparr>buf_shape0 = length (frames w), buf_shape1 = channels w,
      getitem = (\<lambda>start stop.
        if start < 0 \<or> int (length (frames w)) < start then Inl RuntimeError
        else (let remaining = length (frames w) - nat start;
                  n = stop - start;
                  cnt = (if n < 0 \<or> int remaining < n then remaining else nat n)
              in Inr \<lparr>dtype_of = ''float32'', ncols = channels w,
                      rows = map (map (cast ''float32'')) (take cnt (drop (nat start) (frames w)))\<rparr>))\<rparr>"

definition sf_write :: "(string \<Rightarrow> 'a \<Rightarrow> 'a) \<Rightarrow> 'a wavfile \<Rightarrow> 'a ndarray \<Rightarrow> error + 'a wavfile" where
  "sf_write cast w d =
     (if shape1 d \<noteq> channels w then Inl ValueError
      else Inr (w\<lparr>frames := frames w
                  @ map (map (\<lambda>x. if dtype_of d = ''float32'' then x else cast ''float32'' x)) (rows d)\<rparr>))"

text \<open>Lines 171 and 172: with fewer entries than channels, the entry of the left
  channel is copied to the right one.\<close>

definition fill_loss_params :: "nat \<Rightarrow> (string \<times> 'lp) list \<Rightarrow> error + (string \<times> 'lp) list" where
  "fill_loss_params nb_channel lp =
     (if length lp < nb_channel
      then (case map_of lp ''left'' of
              None \<Rightarrow> Inl (KeyError ''left'')
            | Some l \<Rightarrow> Inr (AList.update ''right'' l lp))
      else Inr lp)"

text \<open>
  The loop of lines 178 to 187 over the yielded results: the value says whether the
  loop was left by \<^verbatim>\<open>break\<close>, and gives the output file as written so far. Python
  computes \<^verbatim>\<open>out_index/sample_rate >= duration_limit\<close> in double precision, where
  \<^verbatim>\<open>sample_rate\<close> is the float of the integer rate of the file. That test is the
  parameter \<open>reaches\<close>, which takes the position, the rate and the limit, so that
  nothing is assumed of the rounding. The division raises ZeroDivisionError when
  the rate is 0.
\<close>

fun write_results ::
  "(string \<Rightarrow> 'a \<Rightarrow> 'a) \<Rightarrow> (int \<Rightarrow> nat \<Rightarrow> 'f \<Rightarrow> bool) \<Rightarrow> 'f option \<Rightarrow> nat \<Rightarrow> 'a returns list
     \<Rightarrow> 'a wavfile \<Rightarrow> (error + bool) \<times> 'a wavfile" where
  "write_results cast reaches duration_limit sample_rate [] out_wav = (Inr False, out_wav)"
| "write_results cast reaches duration_limit sample_rate (returns # ys) out_wav =
     (case map_of returns ''main_output'' of
        None \<Rightarrow> (Inl (KeyError ''main_output''), out_wav)
      | Some (oi, processed_data) \<Rightarrow>
         (case (case processed_data of None \<Rightarrow> Inr out_wav | Some d \<Rightarrow> sf_write cast out_wav d) of
            Inl e \<Rightarrow> (Inl e, out_wav)
          | Inr w' \<Rightarrow>
             (case duration_limit of
                None \<Rightarrow> write_results cast reaches duration_limit sample_rate ys w'
              | Some limit \<Rightarrow>
                 (case oi of
                    None \<Rightarrow> write_results cast reaches duration_limit sample_rate ys w'
                  | Some p \<Rightarrow>
                     (if sample_rate = 0 then (Inl ZeroDivisionError, w')
                      else if reaches p sample_rate limit then (Inr True, w')
                      else write_results cast reaches duration_limit sample_rate ys w')))))"

text \<open>
  \<^verbatim>\<open>compute_wave_file\<close>: the value is the exception, if any, with the file system as
  the call leaves it; \<open>has_soundfile\<close> is the module's flag \<^verbatim>\<open>HAS_SOUNDFILE\<close>.
\<close>

definition compute_wave_file ::
  "nat \<Rightarrow> (string \<Rightarrow> 'a \<Rightarrow> 'a) \<Rightarrow> (int \<Rightarrow> nat \<Rightarrow> 'f \<Rightarrow> bool) \<Rightarrow> bool
     \<Rightarrow> (nat \<Rightarrow> nat \<Rightarrow> string \<Rightarrow> ('lp, 'o) params \<Rightarrow> error + 's)
     \<Rightarrow> ('s, 'a::zero) proccesing_func \<Rightarrow> string \<Rightarrow> string \<Rightarrow> 'f option \<Rightarrow> ('lp, 'o) params
     \<Rightarrow> 'a filesystem \<Rightarrow> ((error + unit) \<times> 'a filesystem) option" where
  "compute_wave_file fuel cast reaches has_soundfile create proc in_filename out_filename duration_limit
       params fs =
     (if \<not> has_soundfile then Some (Inl (AssertionError ''soundfile need to be installed''), fs)
      else if in_filename = out_filename then Some (Inl (AssertionError []), fs)
      else case fs in_filename of
        None \<Rightarrow> Some (Inl RuntimeError, fs)
      | Some in_wav \<Rightarrow>
         (let buf = WaveNumpy cast in_wav;
              out_wav = \<lparr>samplerate = samplerate in_wav, channels = channels in_wav, frames = []\<rparr>;
              fs1 = fs(out_filename \<mapsto> out_wav);
              sample_rate = samplerate in_wav;
              nb_channel = channels in_wav
          in case p_chunksize params of
               None \<Rightarrow> Some (Inl (KeyError ''chunksize''), fs1)
             | Some chunksize \<Rightarrow>
           (case p_backward_chunksize params of
               None \<Rightarrow> Some (Inl (KeyError ''backward_chunksize''), fs1)
             | Some backward_chunksize \<Rightarrow>
           (case p_loss_params params of
               None \<Rightarrow> Some (Inl (KeyError ''loss_params''), fs1)
             | Some lp \<Rightarrow>
           (case fill_loss_params nb_channel lp of
               Inl e \<Rightarrow> Some (Inl e, fs1)
             | Inr lp' \<Rightarrow>
           (case make_processing_loop create proc buf chunksize sample_rate ''float32''
                   (params\<lparr>p_loss_params := Some lp'\<rparr>) 0 of
               Inl e \<Rightarrow> Some (Inl e, fs1)
             | Inr (adapter, loop_fn) \<Rightarrow>
           (case loop_fn fuel of (ys, stf, en) \<Rightarrow>
           (case write_results cast reaches duration_limit sample_rate ys out_wav of
               (Inl e, w) \<Rightarrow> Some (Inl e, fs1(out_filename \<mapsto> w))
             | (Inr True, w) \<Rightarrow> Some (Inr (), fs1(out_filename \<mapsto> w))
             | (Inr False, w) \<Rightarrow>
                (case en of
                   Finished \<Rightarrow> Some (Inr (), fs1(out_filename \<mapsto> w))
                 | Raised e \<Rightarrow> Some (Inl e, fs1(out_filename \<mapsto> w))
                 | OutOfFuel \<Rightarrow> None)))))))))"

section \<open>Specification functions\<close>

text \<open>The first item of stream \<open>k\<close> with a position, in the order in which the results
  and their items are stored.\<close>

definition first_positioned :: "string \<Rightarrow> 'a returns list \<Rightarrow> (string \<times> 'a stream_out) option" where
  "first_positioned k ys = find (\<lambda>item. fst item = k \<and> fst (snd item) \<noteq> None) (concat ys)"

text \<open>The position that a result reports for the main output stream.\<close>

definition main_position :: "'a returns \<Rightarrow> int option" where
  "main_position r = (case map_of r ''main_output'' of None \<Rightarrow> None | Some (p, d) \<Rightarrow> p)"

text \<open>A result after which the loop goes on: no main position, or one before the
  nominal length.\<close>

definition still_running :: "nat \<Rightarrow> 'a returns \<Rightarrow> bool" where
  "still_running buffer_size r =
     (case main_position r of None \<Rightarrow> True | Some p \<Rightarrow> p < int buffer_size)"

text \<open>The adapter of the scenarios: it returns each chunk as it is, at the index it is
  given, with no delay.\<close>

definition passthrough :: "('s, 'a) proccesing_func" where
  "passthrough s idx c = Inr (s, [(''main_output'', Some idx, Some c)])"






text \<open>
  The test of the loop in exact arithmetic. It is the test in doubles whenever the
  position, the rate, their quotient and the limit are doubles, as they are in the
  examples below.
\<close>

definition exact_reaches :: "int \<Rightarrow> nat \<Rightarrow> rat \<Rightarrow> bool" where
  "exact_reaches p sample_rate limit = (limit \<le> of_int p / of_nat sample_rate)"



text \<open>Fixtures of the examples: samples that are stored as they are, an adapter without
  state, an adapter that counts its calls, and the duration of the file that a
  call of \<^verbatim>\<open>compute_wave_file\<close> has left under a name when it returned.\<close>

definition no_cast :: "string \<Rightarrow> 'a \<Rightarrow> 'a" where
  "no_cast dt x = x"





section \<open>Slices\<close>

lemma slice_index_le: "slice_index n i \<le> n"
  by (auto simp: slice_index_def)

lemma shape0_getslice:
  "shape0 (getslice a s e) = slice_index (shape0 a) e - slice_index (shape0 a) s"
  using slice_index_le [of "shape0 a" e]
  by (simp add: getslice_def shape0_def Let_def)

lemma rows_getslice:
  "rows (getslice a s e)
     = take (slice_index (shape0 a) e - slice_index (shape0 a) s) (drop (slice_index (shape0 a) s) (rows a))"
  by (simp add: getslice_def Let_def)

text \<open>A slice as long as the chunk lies inside the array, wherever its bounds are.\<close>

lemma guard_fits:
  assumes "slice_index n p - slice_index n s = l"
  shows "slice_index n s + l \<le> n"
  using assms slice_index_le [of n p] slice_index_le [of n s] by linarith

text \<open>For a position that is not negative and a chunk that is not empty, such a slice
  starts at the position less the length.\<close>

lemma guard_nonneg:
  assumes "slice_index n p - slice_index n (p - int l) = l" "0 \<le> p" "0 < l"
  shows "int l \<le> p \<and> p \<le> int n \<and> slice_index n (p - int l) = nat (p - int l)"
  using assms by (auto simp: slice_index_def split: if_splits)

lemma length_splice:
  "lo + length ys \<le> length xs \<Longrightarrow> length (take lo xs @ ys @ drop (lo + length ys) xs) = length xs"
  by simp

lemma nth_splice_before:
  "i < lo \<Longrightarrow> lo \<le> length xs \<Longrightarrow> (take lo xs @ ys @ drop (lo + length ys) xs) ! i = xs ! i"
  by (simp add: nth_append)

lemma nth_splice_after:
  assumes "lo + length ys \<le> i" "i < length xs"
  shows "(take lo xs @ ys @ drop (lo + length ys) xs) ! i = xs ! i"
proof -
  have lo: "min (length xs) lo = lo" using assms by simp
  have "\<not> i < lo" "\<not> i - lo < length ys" using assms by auto
  then have "(take lo xs @ ys @ drop (lo + length ys) xs) ! i
               = drop (lo + length ys) xs ! (i - lo - length ys)"
    by (simp add: nth_append lo)
  also have "\<dots> = xs ! i" using assms by simp
  finally show ?thesis .
qed

lemma slice_splice:
  "lo + length ys \<le> length xs \<Longrightarrow>
     take (length ys) (drop lo (take lo xs @ ys @ drop (lo + length ys) xs)) = ys"
  by simp

lemma setslice_written:
  assumes "slice_index (shape0 a) stop - slice_index (shape0 a) start = shape0 v"
      and "ncols v = ncols a \<or> ncols v = 1"
  shows "setslice cast a start stop v =
           Inr (a\<lparr>rows := take (slice_index (shape0 a) start) (rows a)
                     @ map (stored_row cast (dtype_of a) (ncols a) v) (rows v)
                     @ drop (slice_index (shape0 a) start + shape0 v) (rows a)\<rparr>)"
  using assms by (simp add: setslice_def Let_def shape0_def)

lemma setslice_refused:
  assumes "slice_index (shape0 a) stop - slice_index (shape0 a) start = shape0 v"
      and "\<not> (ncols v = ncols a \<or> ncols v = 1)"
  shows "setslice cast a start stop v = Inl ValueError"
  using assms by (simp add: setslice_def Let_def)

section \<open>Storing one chunk\<close>

lemma store_chunk_null:
  "store_chunk cast buffer_size dtype online_arrs (k, None, oc) = Inr online_arrs"
  by (simp add: store_chunk_def)

lemma store_chunk_skipped:
  assumes "dst = (case online_arrs k of None \<Rightarrow> zeros buffer_size (shape1 c) dtype | Some d \<Rightarrow> d)"
      and "shape0 (getslice dst (p - int (shape0 c)) p) \<noteq> shape0 c"
  shows "store_chunk cast buffer_size dtype online_arrs (k, Some p, Some c) = Inr (online_arrs(k \<mapsto> dst))"
  using assms by (simp add: store_chunk_def Let_def)

lemma store_chunk_refused:
  assumes dst: "dst = (case online_arrs k of None \<Rightarrow> zeros buffer_size (shape1 c) dtype | Some d \<Rightarrow> d)"
      and g: "shape0 (getslice dst (p - int (shape0 c)) p) = shape0 c"
      and nc: "\<not> (ncols c = ncols dst \<or> ncols c = 1)"
  shows "store_chunk cast buffer_size dtype online_arrs (k, Some p, Some c) = Inl ValueError"
proof -
  from g have "slice_index (shape0 dst) p - slice_index (shape0 dst) (p - int (shape0 c)) = shape0 c"
    by (simp add: shape0_getslice)
  from setslice_refused [OF this nc] g dst show ?thesis
    by (simp add: store_chunk_def Let_def)
qed

lemma store_chunk_written:
  assumes dst: "dst = (case online_arrs k of None \<Rightarrow> zeros buffer_size (shape1 c) dtype | Some d \<Rightarrow> d)"
      and g: "shape0 (getslice dst (p - int (shape0 c)) p) = shape0 c"
      and nc: "ncols c = ncols dst \<or> ncols c = 1"
  shows "store_chunk cast buffer_size dtype online_arrs (k, Some p, Some c) =
           Inr (online_arrs(k \<mapsto> dst\<lparr>rows :=
                  take (slice_index (shape0 dst) (p - int (shape0 c))) (rows dst)
                  @ map (stored_row cast (dtype_of dst) (ncols dst) c) (rows c)
                  @ drop (slice_index (shape0 dst) (p - int (shape0 c)) + shape0 c) (rows dst)\<rparr>))"
proof -
  from g have "slice_index (shape0 dst) p - slice_index (shape0 dst) (p - int (shape0 c)) = shape0 c"
    by (simp add: shape0_getslice)
  from setslice_written [OF this nc, of cast] g dst show ?thesis
    by (simp add: store_chunk_def Let_def)
qed

text \<open>
  C1. For a chunk with a position, the write into the destination buffer of its
  stream is all or nothing. With \<open>dst\<close> the buffer of the stream (the zero buffer of
  the first sight, or the one already there): when the slice
  \<^verbatim>\<open>dst[pos - len:pos]\<close> does not have the chunk's length, the chunk is dropped
  without an exception and \<open>dst\<close> is kept as it is; when it has, either numpy
  refuses the channel counts and nothing is stored, or the buffer keeps its shape,
  the slice holds the chunk's rows and every row outside the slice is unchanged.
\<close>

theorem store_chunk_all_or_nothing:
  fixes c :: "('a::zero) ndarray"
  assumes dst: "dst = (case online_arrs k of None \<Rightarrow> zeros buffer_size (shape1 c) dtype | Some d \<Rightarrow> d)"
  shows
  "(shape0 (getslice dst (p - int (shape0 c)) p) \<noteq> shape0 c \<longrightarrow>
      store_chunk cast buffer_size dtype online_arrs (k, Some p, Some c) = Inr (online_arrs(k \<mapsto> dst)))
   \<and> (shape0 (getslice dst (p - int (shape0 c)) p) = shape0 c \<longrightarrow>
       (\<not> (ncols c = ncols dst \<or> ncols c = 1) \<longrightarrow>
          store_chunk cast buffer_size dtype online_arrs (k, Some p, Some c) = Inl ValueError) \<and>
       (ncols c = ncols dst \<or> ncols c = 1 \<longrightarrow>
         (\<exists>d'. store_chunk cast buffer_size dtype online_arrs (k, Some p, Some c) = Inr (online_arrs(k \<mapsto> d'))
            \<and> shape0 d' = shape0 dst \<and> ncols d' = ncols dst \<and> dtype_of d' = dtype_of dst
            \<and> rows (getslice d' (p - int (shape0 c)) p)
                 = map (stored_row cast (dtype_of dst) (ncols dst) c) (rows c)
            \<and> (\<forall>i < shape0 dst.
                  i < slice_index (shape0 dst) (p - int (shape0 c))
                  \<or> slice_index (shape0 dst) (p - int (shape0 c)) + shape0 c \<le> i
                  \<longrightarrow> rows d' ! i = rows dst ! i))))"
proof (intro conjI impI)
  assume "shape0 (getslice dst (p - int (shape0 c)) p) \<noteq> shape0 c"
  with dst show "store_chunk cast buffer_size dtype online_arrs (k, Some p, Some c) = Inr (online_arrs(k \<mapsto> dst))"
    by (rule store_chunk_skipped)
next
  assume "shape0 (getslice dst (p - int (shape0 c)) p) = shape0 c"
     and "\<not> (ncols c = ncols dst \<or> ncols c = 1)"
  with dst show "store_chunk cast buffer_size dtype online_arrs (k, Some p, Some c) = Inl ValueError"
    by (rule store_chunk_refused)
next
  assume g: "shape0 (getslice dst (p - int (shape0 c)) p) = shape0 c"
     and nc: "ncols c = ncols dst \<or> ncols c = 1"
  let ?lo = "slice_index (shape0 dst) (p - int (shape0 c))"
  let ?new = "map (stored_row cast (dtype_of dst) (ncols dst) c) (rows c)"
  let ?d = "dst\<lparr>rows := take ?lo (rows dst) @ ?new @ drop (?lo + shape0 c) (rows dst)\<rparr>"
  from g have m: "slice_index (shape0 dst) p - ?lo = shape0 c"
    by (simp add: shape0_getslice)
  have fits: "?lo + length ?new \<le> length (rows dst)"
    using guard_fits [OF m] by (simp add: shape0_def)
  have len: "length ?new = shape0 c" by (simp add: shape0_def)
  have run: "store_chunk cast buffer_size dtype online_arrs (k, Some p, Some c) = Inr (online_arrs(k \<mapsto> ?d))"
    using dst g nc by (rule store_chunk_written)
  have s0: "shape0 ?d = shape0 dst"
    using length_splice [OF fits] by (simp add: shape0_def)
  have rd: "rows ?d = take ?lo (rows dst) @ ?new @ drop (?lo + length ?new) (rows dst)"
    by (simp add: shape0_def)
  have sl: "rows (getslice ?d (p - int (shape0 c)) p) = ?new"
  proof -
    have "rows (getslice ?d (p - int (shape0 c)) p) = take (length ?new) (drop ?lo (rows ?d))"
      by (simp only: rows_getslice s0 m len)
    also have "\<dots> = ?new"
      by (simp only: rd slice_splice [OF fits])
    finally show ?thesis .
  qed
  have others: "\<forall>i < shape0 dst. i < ?lo \<or> ?lo + shape0 c \<le> i \<longrightarrow> rows ?d ! i = rows dst ! i"
  proof (intro allI impI)
    fix i assume i: "i < shape0 dst" and o: "i < ?lo \<or> ?lo + shape0 c \<le> i"
    from o show "rows ?d ! i = rows dst ! i"
    proof
      assume "i < ?lo"
      then show ?thesis
        using nth_splice_before [of i ?lo "rows dst" ?new] slice_index_le [of "shape0 dst" "p - int (shape0 c)"]
        by (simp add: shape0_def)
    next
      assume "?lo + shape0 c \<le> i"
      then show ?thesis
        using nth_splice_after [of ?lo ?new i "rows dst"] i
        by (simp add: shape0_def)
    qed
  qed
  show "\<exists>d'. store_chunk cast buffer_size dtype online_arrs (k, Some p, Some c) = Inr (online_arrs(k \<mapsto> d'))
            \<and> shape0 d' = shape0 dst \<and> ncols d' = ncols dst \<and> dtype_of d' = dtype_of dst
            \<and> rows (getslice d' (p - int (shape0 c)) p)
                 = map (stored_row cast (dtype_of dst) (ncols dst) c) (rows c)
            \<and> (\<forall>i < shape0 dst.
                  i < slice_index (shape0 dst) (p - int (shape0 c))
                  \<or> slice_index (shape0 dst) (p - int (shape0 c)) + shape0 c \<le> i
                  \<longrightarrow> rows d' ! i = rows dst ! i)"
    using run s0 sl others by (intro exI [of _ ?d]) simp
qed

text \<open>
  The theorem at a buffer of 4 rows and a chunk of 2 rows: at position 6 the chunk
  is dropped, at position 2 it fills rows 0 and 1 and the other rows stay zero.
\<close>

theorem store_chunk_all_or_nothing_witness:
  "store_chunk (\<lambda>dt x. x) 4 ''float32'' Map.empty
      (''main_output'', Some 6, Some \<lparr>dtype_of = ''float32'', ncols = 1, rows = [[1::int], [2]]\<rparr>)
     = Inr [''main_output'' \<mapsto> zeros 4 1 ''float32'']
   \<and> (\<exists>d'. store_chunk (\<lambda>dt x. x) 4 ''float32'' Map.empty
      (''main_output'', Some 2, Some \<lparr>dtype_of = ''float32'', ncols = 1, rows = [[1::int], [2]]\<rparr>)
     = Inr [''main_output'' \<mapsto> d']
     \<and> rows (getslice d' 0 2) = [[1], [2]] \<and> rows d' ! 2 = [0] \<and> rows d' ! 3 = [0])"
proof -
  let ?c = "\<lparr>dtype_of = ''float32'', ncols = 1, rows = [[1::int], [2]]\<rparr>"
  let ?z = "zeros 4 1 ''float32'' :: int ndarray"
  have z: "?z = (case Map.empty ''main_output'' of None \<Rightarrow> zeros 4 (shape1 ?c) ''float32'' | Some d \<Rightarrow> d)"
    by (simp add: shape1_def)
  have g6: "shape0 (getslice ?z (6 - int (shape0 ?c)) 6) \<noteq> shape0 ?c"
    by (simp add: shape0_def getslice_def slice_index_def zeros_def)
  have g2: "shape0 (getslice ?z (2 - int (shape0 ?c)) 2) = shape0 ?c"
    by (simp add: shape0_def getslice_def slice_index_def zeros_def)
  from store_chunk_all_or_nothing [OF z, of 6 "\<lambda>dt x. x"] g6
  have a: "store_chunk (\<lambda>dt x. x) 4 ''float32'' Map.empty (''main_output'', Some 6, Some ?c)
     = Inr [''main_output'' \<mapsto> ?z]"
    by blast
  from store_chunk_all_or_nothing [OF z, of 2 "\<lambda>dt x. x"] g2
  obtain d' where d: "store_chunk (\<lambda>dt x. x) 4 ''float32'' Map.empty (''main_output'', Some 2, Some ?c)
       = Inr [''main_output'' \<mapsto> d']"
     "rows (getslice d' (2 - int (shape0 ?c)) 2) = map (stored_row (\<lambda>dt x. x) (dtype_of ?z) (ncols ?z) ?c) (rows ?c)"
     "\<forall>i < shape0 ?z. i < slice_index (shape0 ?z) (2 - int (shape0 ?c))
                  \<or> slice_index (shape0 ?z) (2 - int (shape0 ?c)) + shape0 ?c \<le> i
                  \<longrightarrow> rows d' ! i = rows ?z ! i"
    by (auto simp: shape0_def zeros_def)
  from d(2) have r1: "rows (getslice d' 0 2) = [[1], [2]]"
    by (simp add: shape0_def zeros_def stored_row_def)
  from d(3) [THEN spec, of 2] have r2: "rows d' ! 2 = [0]"
    by (simp add: shape0_def zeros_def slice_index_def numeral_eq_Suc)
  from d(3) [THEN spec, of 3] have r3: "rows d' ! 3 = [0]"
    by (simp add: shape0_def zeros_def slice_index_def numeral_eq_Suc)
  from a d(1) r1 r2 r3 show ?thesis by blast
qed

lemma shape0_zeros [simp]: "shape0 (zeros n c dt) = n"
  by (simp add: shape0_def zeros_def)

text \<open>What a chunk with a position leaves behind when no exception is raised: the
  buffer of its stream, of the same shape and dtype, changed inside the slice only.\<close>

lemma store_chunk_success:
  fixes c :: "('a::zero) ndarray"
  assumes dst: "dst = (case online_arrs k of None \<Rightarrow> zeros buffer_size (shape1 c) dtype | Some d \<Rightarrow> d)"
      and run: "store_chunk cast buffer_size dtype online_arrs (k, Some p, Some c) = Inr r"
  shows "\<exists>d'. r = online_arrs(k \<mapsto> d') \<and> shape0 d' = shape0 dst \<and> ncols d' = ncols dst
            \<and> dtype_of d' = dtype_of dst
            \<and> (\<forall>i < shape0 dst.
                  i < slice_index (shape0 dst) (p - int (shape0 c))
                  \<or> slice_index (shape0 dst) (p - int (shape0 c)) + shape0 c \<le> i
                  \<longrightarrow> rows d' ! i = rows dst ! i)"
proof (cases "shape0 (getslice dst (p - int (shape0 c)) p) = shape0 c")
  case False
  with dst have "store_chunk cast buffer_size dtype online_arrs (k, Some p, Some c) = Inr (online_arrs(k \<mapsto> dst))"
    by (rule store_chunk_skipped)
  with run show ?thesis by auto
next
  case g: True
  show ?thesis
  proof (cases "ncols c = ncols dst \<or> ncols c = 1")
    case False
    with dst g have "store_chunk cast buffer_size dtype online_arrs (k, Some p, Some c) = Inl ValueError"
      by (rule store_chunk_refused)
    with run show ?thesis by simp
  next
    case nc: True
    let ?lo = "slice_index (shape0 dst) (p - int (shape0 c))"
    let ?new = "map (stored_row cast (dtype_of dst) (ncols dst) c) (rows c)"
    let ?d = "dst\<lparr>rows := take ?lo (rows dst) @ ?new @ drop (?lo + shape0 c) (rows dst)\<rparr>"
    from g have m: "slice_index (shape0 dst) p - ?lo = shape0 c"
      by (simp add: shape0_getslice)
    have fits: "?lo + length ?new \<le> length (rows dst)"
      using guard_fits [OF m] by (simp add: shape0_def)
    from dst g nc have "store_chunk cast buffer_size dtype online_arrs (k, Some p, Some c) = Inr (online_arrs(k \<mapsto> ?d))"
      by (rule store_chunk_written)
    with run have r: "r = online_arrs(k \<mapsto> ?d)" by simp
    have s0: "shape0 ?d = shape0 dst"
      using length_splice [OF fits] by (simp add: shape0_def)
    have others: "\<forall>i < shape0 dst. i < ?lo \<or> ?lo + shape0 c \<le> i \<longrightarrow> rows ?d ! i = rows dst ! i"
    proof (intro allI impI)
      fix i assume i: "i < shape0 dst" and o: "i < ?lo \<or> ?lo + shape0 c \<le> i"
      from o show "rows ?d ! i = rows dst ! i"
      proof
        assume "i < ?lo"
        then show ?thesis
          using nth_splice_before [of i ?lo "rows dst" ?new] slice_index_le [of "shape0 dst" "p - int (shape0 c)"]
          by (simp add: shape0_def)
      next
        assume "?lo + shape0 c \<le> i"
        then show ?thesis
          using nth_splice_after [of ?lo ?new i "rows dst"] i
          by (simp add: shape0_def)
      qed
    qed
    from r s0 others show ?thesis by (intro exI [of _ ?d]) simp
  qed
qed

text \<open>
  C9, as amended. In a run whose buffers have the nominal length, a write that
  passes the length guard lies inside the buffer: the rows it covers end at or
  before the nominal length, whatever the position. When the position is not
  negative and the chunk has at least one row, the slice starts at the position
  less the chunk's length, which is not negative, and the position is at most the
  nominal length. A chunk with a position that is not negative is skipped when the
  position is smaller than its length, or when it has a row and ends after the
  buffer; and whenever such a chunk is stored without an exception, every row
  outside \<open>[pos - len, pos)\<close> is unchanged.
\<close>

theorem store_chunk_write_in_bounds:
  fixes c :: "('a::zero) ndarray"
  assumes dst: "dst = (case online_arrs k of None \<Rightarrow> zeros buffer_size (shape1 c) dtype | Some d \<Rightarrow> d)"
      and size: "\<forall>d. online_arrs k = Some d \<longrightarrow> shape0 d = buffer_size"
  shows "(shape0 (getslice dst (p - int (shape0 c)) p) = shape0 c \<longrightarrow>
            slice_index buffer_size (p - int (shape0 c)) + shape0 c \<le> buffer_size
          \<and> (0 \<le> p \<and> 0 < shape0 c \<longrightarrow>
               0 \<le> p - int (shape0 c) \<and> p \<le> int buffer_size
               \<and> slice_index buffer_size (p - int (shape0 c)) = nat (p - int (shape0 c))))
       \<and> (0 \<le> p \<and> (p < int (shape0 c) \<or> (int buffer_size < p \<and> 0 < shape0 c)) \<longrightarrow>
            store_chunk cast buffer_size dtype online_arrs (k, Some p, Some c) = Inr (online_arrs(k \<mapsto> dst)))
       \<and> (\<forall>r. store_chunk cast buffer_size dtype online_arrs (k, Some p, Some c) = Inr r \<longrightarrow>
            (\<exists>d'. r k = Some d' \<and> shape0 d' = buffer_size
               \<and> (0 \<le> p \<longrightarrow> (\<forall>i < buffer_size. int i < p - int (shape0 c) \<or> p \<le> int i
                                \<longrightarrow> rows d' ! i = rows dst ! i))))"
proof -
  have n: "shape0 dst = buffer_size"
    using dst size by (cases "online_arrs k") simp_all
  have bounds: "slice_index buffer_size (p - int (shape0 c)) + shape0 c \<le> buffer_size
          \<and> (0 \<le> p \<and> 0 < shape0 c \<longrightarrow>
               0 \<le> p - int (shape0 c) \<and> p \<le> int buffer_size
               \<and> slice_index buffer_size (p - int (shape0 c)) = nat (p - int (shape0 c)))"
    if g: "shape0 (getslice dst (p - int (shape0 c)) p) = shape0 c"
  proof -
    from g have m: "slice_index buffer_size p - slice_index buffer_size (p - int (shape0 c)) = shape0 c"
      by (simp add: shape0_getslice n)
    from guard_fits [OF m] guard_nonneg [OF m] show ?thesis by auto
  qed
  have skip: "store_chunk cast buffer_size dtype online_arrs (k, Some p, Some c) = Inr (online_arrs(k \<mapsto> dst))"
    if p: "0 \<le> p" and out: "p < int (shape0 c) \<or> (int buffer_size < p \<and> 0 < shape0 c)"
  proof -
    have "shape0 (getslice dst (p - int (shape0 c)) p) \<noteq> shape0 c"
    proof
      assume "shape0 (getslice dst (p - int (shape0 c)) p) = shape0 c"
      from bounds [OF this] p out show False by auto
    qed
    with dst show ?thesis by (rule store_chunk_skipped)
  qed
  have kept: "\<exists>d'. r k = Some d' \<and> shape0 d' = buffer_size
               \<and> (0 \<le> p \<longrightarrow> (\<forall>i < buffer_size. int i < p - int (shape0 c) \<or> p \<le> int i
                                \<longrightarrow> rows d' ! i = rows dst ! i))"
    if run: "store_chunk cast buffer_size dtype online_arrs (k, Some p, Some c) = Inr r" for r
  proof -
    from store_chunk_success [OF dst run] obtain d' where
      r: "r = online_arrs(k \<mapsto> d')" and s: "shape0 d' = shape0 dst"
      and o: "\<forall>i < shape0 dst.
                  i < slice_index (shape0 dst) (p - int (shape0 c))
                  \<or> slice_index (shape0 dst) (p - int (shape0 c)) + shape0 c \<le> i
                  \<longrightarrow> rows d' ! i = rows dst ! i"
      by blast
    have "rows d' ! i = rows dst ! i"
      if p: "0 \<le> p" and i: "i < buffer_size" and out: "int i < p - int (shape0 c) \<or> p \<le> int i" for i
    proof (cases "shape0 (getslice dst (p - int (shape0 c)) p) = shape0 c")
      case False
      with dst have "store_chunk cast buffer_size dtype online_arrs (k, Some p, Some c) = Inr (online_arrs(k \<mapsto> dst))"
        by (rule store_chunk_skipped)
      with run r have "d' = dst" by (metis map_upd_eqD1 sum.inject(2))
      then show ?thesis by simp
    next
      case g: True
      show ?thesis
      proof (cases "0 < shape0 c")
        case True
        with bounds [OF g] p have "slice_index buffer_size (p - int (shape0 c)) = nat (p - int (shape0 c))"
          "0 \<le> p - int (shape0 c)" by auto
        with out have "i < slice_index (shape0 dst) (p - int (shape0 c))
                  \<or> slice_index (shape0 dst) (p - int (shape0 c)) + shape0 c \<le> i"
          by (auto simp: n)
        with o i show ?thesis by (auto simp: n)
      next
        case False
        with o i show ?thesis by (auto simp: n)
      qed
    qed
    with r s n show ?thesis by auto
  qed
  from bounds skip kept show ?thesis by blast
qed

text \<open>
  C9 as stated fails at two inputs. In a buffer of 10 rows, a chunk of 3 rows at
  position \<open>-2\<close> passes the guard, since Python reads the slice \<^verbatim>\<open>[-5:-2]\<close> from the
  end: the slice start is negative and the chunk lands in rows 5 to 7. And a chunk
  without a row at position 20 passes the guard although its position is after
  the buffer.
\<close>

theorem store_chunk_wraparound_counterexample:
  "shape0 (getslice (zeros 10 1 ''float32'' :: int ndarray) (- 2 - 3) (- 2)) = 3
   \<and> (- 2 :: int) - 3 < 0
   \<and> store_chunk no_cast 10 ''float32'' Map.empty
        (''main_output'', Some (- 2), Some \<lparr>dtype_of = ''float32'', ncols = 1, rows = [[1], [2], [3::int]]\<rparr>)
      = Inr [''main_output'' \<mapsto>
              \<lparr>dtype_of = ''float32'', ncols = 1,
               rows = [[0], [0], [0], [0], [0], [1], [2], [3], [0], [0]]\<rparr>]
   \<and> shape0 (getslice (zeros 10 1 ''float32'' :: int ndarray) (20 - 0) 20) = 0
   \<and> \<not> (20 :: int) \<le> 10"
  by (simp add: store_chunk_def setslice_def getslice_def slice_index_def zeros_def shape0_def shape1_def
        stored_row_def Let_def numeral_eq_Suc)


text \<open>The amended C9 at a buffer of 4 rows and a chunk of 2 rows: position 2 passes the
  guard inside the bounds, position 1 is skipped.\<close>

theorem store_chunk_write_in_bounds_witness:
  "shape0 (getslice (zeros 4 1 ''float32'' :: int ndarray) (2 - 2) 2) = 2
   \<and> slice_index 4 (2 - 2) + 2 \<le> (4::nat) \<and> (2::int) \<le> 4
   \<and> store_chunk (\<lambda>dt x. x) 4 ''float32'' Map.empty
        (''main_output'', Some 1, Some \<lparr>dtype_of = ''float32'', ncols = 1, rows = [[1::int], [2]]\<rparr>)
       = Inr [''main_output'' \<mapsto> zeros 4 1 ''float32'']"
proof -
  let ?c = "\<lparr>dtype_of = ''float32'', ncols = 1, rows = [[1::int], [2]]\<rparr>"
  let ?z = "zeros 4 1 ''float32'' :: int ndarray"
  have z: "?z = (case Map.empty ''main_output'' of None \<Rightarrow> zeros 4 (shape1 ?c) ''float32'' | Some d \<Rightarrow> d)"
    by (simp add: shape1_def)
  have e: "\<forall>d. (Map.empty :: int online_arrs) ''main_output'' = Some d \<longrightarrow> shape0 d = 4"
    by simp
  have g: "shape0 (getslice ?z (2 - int (shape0 ?c)) 2) = shape0 ?c"
    by (simp add: shape0_def getslice_def slice_index_def zeros_def)
  have l: "shape0 ?c = 2" by (simp add: shape0_def)
  from store_chunk_write_in_bounds [where k = "''main_output''" and online_arrs = Map.empty
         and p = 2 and cast = "\<lambda>dt x. x", OF z e] g
  have a: "slice_index 4 (2 - int (shape0 ?c)) + shape0 ?c \<le> 4" "(2::int) \<le> int 4"
    by (simp_all add: shape0_def)
  from store_chunk_write_in_bounds [where k = "''main_output''" and online_arrs = Map.empty
         and p = 1 and cast = "\<lambda>dt x. x", OF z e]
  have b: "store_chunk (\<lambda>dt x. x) 4 ''float32'' Map.empty (''main_output'', Some 1, Some ?c)
       = Inr [''main_output'' \<mapsto> ?z]"
    by (simp add: shape0_def)
  from g a b show ?thesis by (simp add: shape0_def)
qed


section \<open>Allocation of the destination buffers\<close>

lemma store_chunk_other:
  assumes "store_chunk cast n dt arrs (k', pos, oc) = Inr r" "k \<noteq> k'"
  shows "r k = arrs k"
  using assms
  by (auto simp: store_chunk_def Let_def split: option.splits if_splits sum.splits)

lemma store_chunk_alloc:
  fixes r :: "('a::zero) online_arrs"
  assumes run: "store_chunk cast n dt arrs (k, Some p, oc) = Inr r"
      and none: "arrs k = None"
  shows "\<exists>c d. oc = Some c \<and> r k = Some d \<and> shape0 d = n \<and> shape1 d = shape1 c \<and> dtype_of d = dt
            \<and> (shape0 (getslice (zeros n (shape1 c) dt :: 'a ndarray) (p - int (shape0 c)) p) \<noteq> shape0 c
                 \<longrightarrow> d = zeros n (shape1 c) dt)
            \<and> (\<forall>i < n. i < slice_index n (p - int (shape0 c)) \<or> slice_index n (p - int (shape0 c)) + shape0 c \<le> i
                 \<longrightarrow> rows d ! i = replicate (shape1 c) 0)"
proof -
  from run obtain c where oc: "oc = Some c"
    by (cases oc) (simp_all add: store_chunk_def)
  let ?z = "zeros n (shape1 c) dt :: 'a ndarray"
  have dst: "?z = (case arrs k of None \<Rightarrow> zeros n (shape1 c) dt | Some d \<Rightarrow> d)"
    using none by simp
  from store_chunk_success [OF dst run [unfolded oc]] obtain d where
    d: "r = arrs(k \<mapsto> d)" "shape0 d = shape0 ?z" "ncols d = ncols ?z" "dtype_of d = dtype_of ?z"
       "\<forall>i < shape0 ?z. i < slice_index (shape0 ?z) (p - int (shape0 c))
                  \<or> slice_index (shape0 ?z) (p - int (shape0 c)) + shape0 c \<le> i
                  \<longrightarrow> rows d ! i = rows ?z ! i"
    by blast
  have skipped: "d = ?z" if "shape0 (getslice ?z (p - int (shape0 c)) p) \<noteq> shape0 c"
  proof -
    from dst that have "store_chunk cast n dt arrs (k, Some p, Some c) = Inr (arrs(k \<mapsto> ?z))"
      by (rule store_chunk_skipped)
    with run oc d(1) show ?thesis by (metis map_upd_eqD1 sum.inject(2))
  qed
  have zrow: "rows ?z ! i = replicate (shape1 c) 0" if "i < n" for i
    using that by (simp add: zeros_def)
  from d zrow skipped oc show ?thesis
    by (rule_tac x = c in exI, rule_tac x = d in exI) (simp add: shape1_def zeros_def shape0_def)
qed

lemma store_chunk_keep:
  fixes r :: "('a::zero) online_arrs"
  assumes run: "store_chunk cast n dt arrs (k, pos, oc) = Inr r"
      and some: "arrs k = Some d0"
  shows "\<exists>d. r k = Some d \<and> shape0 d = shape0 d0 \<and> ncols d = ncols d0 \<and> dtype_of d = dtype_of d0"
proof (cases pos)
  case None
  with run some show ?thesis by (simp add: store_chunk_def)
next
  case (Some p)
  with run obtain c where oc: "oc = Some c"
    by (cases oc) (simp_all add: store_chunk_def)
  have dst: "d0 = (case arrs k of None \<Rightarrow> zeros n (shape1 c) dt | Some d \<Rightarrow> d)"
    using some by simp
  from store_chunk_success [OF dst run [unfolded oc Some]] show ?thesis by auto
qed

lemma store_returns_keep:
  fixes r :: "('a::zero) online_arrs"
  assumes "store_returns cast n dt arrs items = Inr r" "arrs k = Some d0"
  shows "\<exists>d. r k = Some d \<and> shape0 d = shape0 d0 \<and> ncols d = ncols d0 \<and> dtype_of d = dtype_of d0"
  using assms
proof (induction items arbitrary: arrs d0)
  case Nil
  then show ?case by simp
next
  case (Cons item items)
  obtain k' pos oc where item: "item = (k', pos, oc)" by (cases item) auto
  from Cons.prems(1) obtain a1 where
    a1: "store_chunk cast n dt arrs item = Inr a1" and rest: "store_returns cast n dt a1 items = Inr r"
    by (auto split: sum.splits)
  have "\<exists>d1. a1 k = Some d1 \<and> shape0 d1 = shape0 d0 \<and> ncols d1 = ncols d0 \<and> dtype_of d1 = dtype_of d0"
  proof (cases "k' = k")
    case True
    with store_chunk_keep [OF a1 [unfolded item]] Cons.prems(2) show ?thesis by blast
  next
    case False
    with store_chunk_other [of cast n dt arrs k' pos oc a1 k] a1 item Cons.prems(2)
    show ?thesis by auto
  qed
  then obtain d1 where d1: "a1 k = Some d1" "shape0 d1 = shape0 d0" "ncols d1 = ncols d0"
      "dtype_of d1 = dtype_of d0" by blast
  from Cons.IH [OF rest d1(1)] d1 show ?case by auto
qed

lemma store_returns_first:
  fixes r :: "('a::zero) online_arrs"
  assumes "store_returns cast n dt arrs items = Inr r" "arrs k = None"
  shows "case find (\<lambda>item. fst item = k \<and> fst (snd item) \<noteq> None) items of
           None \<Rightarrow> r k = None
         | Some (k', pos, oc) \<Rightarrow>
             \<exists>c d. oc = Some c \<and> r k = Some d \<and> shape0 d = n \<and> shape1 d = shape1 c \<and> dtype_of d = dt"
  using assms
proof (induction items arbitrary: arrs)
  case Nil
  then show ?case by simp
next
  case (Cons item items)
  obtain k' pos oc where item: "item = (k', pos, oc)" by (cases item) auto
  from Cons.prems(1) obtain a1 where
    a1: "store_chunk cast n dt arrs item = Inr a1" and rest: "store_returns cast n dt a1 items = Inr r"
    by (auto split: sum.splits)
  show ?case
  proof (cases "k' = k \<and> pos \<noteq> None")
    case True
    then obtain p where p: "pos = Some p" and k: "k' = k" by auto
    from store_chunk_alloc [OF a1 [unfolded item p k] Cons.prems(2)] obtain c d where
      d: "oc = Some c" "a1 k = Some d" "shape0 d = n" "shape1 d = shape1 c" "dtype_of d = dt"
      by blast
    from store_returns_keep [OF rest d(2)] obtain d' where
      "r k = Some d'" "shape0 d' = shape0 d" "ncols d' = ncols d" "dtype_of d' = dtype_of d" by blast
    with d True item show ?thesis by (simp add: shape1_def)
  next
    case False
    have "a1 k = None"
    proof (cases "k' = k")
      case True
      with False have "pos = None" by simp
      with a1 item Cons.prems(2) show ?thesis by (simp add: store_chunk_def)
    next
      case False
      with store_chunk_other [of cast n dt arrs k' pos oc a1 k] a1 item Cons.prems(2)
      show ?thesis by auto
    qed
    from Cons.IH [OF rest this] False item show ?thesis by auto
  qed
qed

lemma store_returns_append:
  "store_returns cast n dt arrs (xs @ zs) =
     (case store_returns cast n dt arrs xs of Inl e \<Rightarrow> Inl e | Inr a \<Rightarrow> store_returns cast n dt a zs)"
  by (induction xs arbitrary: arrs) (auto split: sum.splits)

lemma store_all_concat:
  "store_all cast n dt arrs ys = store_returns cast n dt arrs (concat ys)"
  by (induction ys arbitrary: arrs) (auto simp: store_returns_append split: sum.splits)

lemma store_all_first:
  fixes r :: "('a::zero) online_arrs"
  assumes "store_all cast n dt Map.empty ys = Inr r"
  shows "case first_positioned k ys of
           None \<Rightarrow> r k = None
         | Some (k', pos, oc) \<Rightarrow>
             \<exists>c d. oc = Some c \<and> r k = Some d \<and> shape0 d = n \<and> shape1 d = shape1 c \<and> dtype_of d = dt"
  unfolding first_positioned_def
  using assms store_returns_first [of cast n dt Map.empty "concat ys" r k]
  by (simp add: store_all_concat)

text \<open>A chunk with a position whose stream already has its buffer: the buffer is kept,
  with its shape and dtype, and changed inside the slice only.\<close>

lemma store_chunk_existing:
  fixes r :: "('a::zero) online_arrs"
  assumes run: "store_chunk cast n dt arrs (k, Some p, Some c) = Inr r"
      and some: "arrs k = Some d0"
  shows "\<exists>d. r k = Some d \<and> shape0 d = shape0 d0 \<and> ncols d = ncols d0 \<and> dtype_of d = dtype_of d0
            \<and> (shape0 (getslice d0 (p - int (shape0 c)) p) \<noteq> shape0 c \<longrightarrow> d = d0)
            \<and> (\<forall>i < shape0 d0. i < slice_index (shape0 d0) (p - int (shape0 c))
                      \<or> slice_index (shape0 d0) (p - int (shape0 c)) + shape0 c \<le> i
                 \<longrightarrow> rows d ! i = rows d0 ! i)"
proof -
  have dst: "d0 = (case arrs k of None \<Rightarrow> zeros n (shape1 c) dt | Some d \<Rightarrow> d)"
    using some by simp
  from store_chunk_success [OF dst run] obtain d where
    d: "r = arrs(k \<mapsto> d)" "shape0 d = shape0 d0" "ncols d = ncols d0" "dtype_of d = dtype_of d0"
       "\<forall>i < shape0 d0. i < slice_index (shape0 d0) (p - int (shape0 c))
                  \<or> slice_index (shape0 d0) (p - int (shape0 c)) + shape0 c \<le> i
                  \<longrightarrow> rows d ! i = rows d0 ! i"
    by blast
  have skipped: "d = d0" if "shape0 (getslice d0 (p - int (shape0 c)) p) \<noteq> shape0 c"
  proof -
    from dst that have "store_chunk cast n dt arrs (k, Some p, Some c) = Inr (arrs(k \<mapsto> d0))"
      by (rule store_chunk_skipped)
    with run d(1) show ?thesis by (metis map_upd_eqD1 sum.inject(2))
  qed
  from d skipped show ?thesis by auto
qed

text \<open>
  C7. A result whose position is \<^verbatim>\<open>None\<close> leaves the dict of buffers as it is: no
  allocation, no write. The first chunk of a stream with a position allocates the
  stream's buffer: it has the nominal length, the channel count of that chunk and
  the dtype of the run, it is the zero buffer when the chunk is dropped, and
  outside the written slice its rows are zero. A later chunk of the stream does
  not allocate: the buffer that is there keeps its shape, its dtype and every row
  outside the written slice, and it is left as it is when the chunk is dropped.
  The buffers of the other streams are not touched. Over a whole run that raises
  nothing, a stream has a buffer exactly when one of its results had a position,
  and the buffer still has the nominal length, the dtype of the run and the
  channel count of the first such chunk: it is allocated once.
\<close>

theorem destination_allocated_on_first_position:
  fixes online_arrs r r' r2 r3 :: "('a::zero) online_arrs"
  shows "store_chunk cast buffer_size dtype online_arrs (k, None, oc) = Inr online_arrs
   \<and> (online_arrs k = None \<and> store_chunk cast buffer_size dtype online_arrs (k, Some p, Some c) = Inr r \<longrightarrow>
        (\<exists>d. r k = Some d \<and> shape0 d = buffer_size \<and> shape1 d = shape1 c \<and> dtype_of d = dtype
           \<and> (shape0 (getslice (zeros buffer_size (shape1 c) dtype :: 'a ndarray) (p - int (shape0 c)) p) \<noteq> shape0 c
                 \<longrightarrow> d = zeros buffer_size (shape1 c) dtype)
           \<and> (\<forall>i < buffer_size. i < slice_index buffer_size (p - int (shape0 c))
                      \<or> slice_index buffer_size (p - int (shape0 c)) + shape0 c \<le> i
                 \<longrightarrow> rows d ! i = replicate (shape1 c) 0)))
   \<and> (store_all cast buffer_size dtype Map.empty ys = Inr r' \<longrightarrow>
        (case first_positioned k ys of
           None \<Rightarrow> r' k = None
         | Some (k', pos, oc') \<Rightarrow>
             \<exists>c' d. oc' = Some c' \<and> r' k = Some d \<and> shape0 d = buffer_size \<and> shape1 d = shape1 c'
                    \<and> dtype_of d = dtype))
   \<and> (online_arrs k = Some d0 \<and> store_chunk cast buffer_size dtype online_arrs (k, Some q, Some e) = Inr r2 \<longrightarrow>
        (\<exists>d. r2 k = Some d \<and> shape0 d = shape0 d0 \<and> ncols d = ncols d0 \<and> dtype_of d = dtype_of d0
           \<and> (shape0 (getslice d0 (q - int (shape0 e)) q) \<noteq> shape0 e \<longrightarrow> d = d0)
           \<and> (\<forall>i < shape0 d0. i < slice_index (shape0 d0) (q - int (shape0 e))
                      \<or> slice_index (shape0 d0) (q - int (shape0 e)) + shape0 e \<le> i
                 \<longrightarrow> rows d ! i = rows d0 ! i)))
   \<and> (store_chunk cast buffer_size dtype online_arrs (k, pos2, oc2) = Inr r3 \<and> k2 \<noteq> k \<longrightarrow>
        r3 k2 = online_arrs k2)"
proof (intro conjI impI)
  show "store_chunk cast buffer_size dtype online_arrs (k, None, oc) = Inr online_arrs"
    by (rule store_chunk_null)
next
  assume "online_arrs k = None \<and> store_chunk cast buffer_size dtype online_arrs (k, Some p, Some c) = Inr r"
  then have none: "online_arrs k = None"
    and run: "store_chunk cast buffer_size dtype online_arrs (k, Some p, Some c) = Inr r" by simp_all
  from store_chunk_alloc [OF run none]
  show "\<exists>d. r k = Some d \<and> shape0 d = buffer_size \<and> shape1 d = shape1 c \<and> dtype_of d = dtype
           \<and> (shape0 (getslice (zeros buffer_size (shape1 c) dtype :: 'a ndarray) (p - int (shape0 c)) p) \<noteq> shape0 c
                 \<longrightarrow> d = zeros buffer_size (shape1 c) dtype)
           \<and> (\<forall>i < buffer_size. i < slice_index buffer_size (p - int (shape0 c))
                      \<or> slice_index buffer_size (p - int (shape0 c)) + shape0 c \<le> i
                 \<longrightarrow> rows d ! i = replicate (shape1 c) 0)"
    by auto
next
  assume "store_all cast buffer_size dtype Map.empty ys = Inr r'"
  then show "case first_positioned k ys of
           None \<Rightarrow> r' k = None
         | Some (k', pos, oc') \<Rightarrow>
             \<exists>c' d. oc' = Some c' \<and> r' k = Some d \<and> shape0 d = buffer_size \<and> shape1 d = shape1 c'
                    \<and> dtype_of d = dtype"
    by (rule store_all_first)
next
  assume "online_arrs k = Some d0 \<and> store_chunk cast buffer_size dtype online_arrs (k, Some q, Some e) = Inr r2"
  then have some: "online_arrs k = Some d0"
    and run: "store_chunk cast buffer_size dtype online_arrs (k, Some q, Some e) = Inr r2" by simp_all
  from run some
  show "\<exists>d. r2 k = Some d \<and> shape0 d = shape0 d0 \<and> ncols d = ncols d0 \<and> dtype_of d = dtype_of d0
           \<and> (shape0 (getslice d0 (q - int (shape0 e)) q) \<noteq> shape0 e \<longrightarrow> d = d0)
           \<and> (\<forall>i < shape0 d0. i < slice_index (shape0 d0) (q - int (shape0 e))
                      \<or> slice_index (shape0 d0) (q - int (shape0 e)) + shape0 e \<le> i
                 \<longrightarrow> rows d ! i = rows d0 ! i)"
    by (rule store_chunk_existing)
next
  assume "store_chunk cast buffer_size dtype online_arrs (k, pos2, oc2) = Inr r3 \<and> k2 \<noteq> k"
  then show "r3 k2 = online_arrs k2"
    using store_chunk_other [of cast buffer_size dtype online_arrs k pos2 oc2 r3 k2] by simp
qed

text \<open>C7 on a run of three results into buffers of 4 rows: the first without a
  position, then a chunk of two rows at position 2, which allocates the buffer,
  then a chunk of two rows at position 4, which is written into the same buffer
  and keeps rows 0 and 1.\<close>

theorem destination_allocated_on_first_position_witness:
  "store_chunk (\<lambda>dt x. x) 4 ''float32'' Map.empty
      (''main_output'', Some 2, Some \<lparr>dtype_of = ''float64'', ncols = 1, rows = [[1::int], [2]]\<rparr>)
     = Inr [''main_output'' \<mapsto> \<lparr>dtype_of = ''float32'', ncols = 1, rows = [[1], [2], [0], [0]]\<rparr>]
   \<and> store_chunk (\<lambda>dt x. x) 4 ''float32''
        [''main_output'' \<mapsto> \<lparr>dtype_of = ''float32'', ncols = 1, rows = [[1::int], [2], [0], [0]]\<rparr>]
        (''main_output'', Some 4, Some \<lparr>dtype_of = ''float64'', ncols = 1, rows = [[3::int], [4]]\<rparr>)
     = Inr [''main_output'' \<mapsto> \<lparr>dtype_of = ''float32'', ncols = 1, rows = [[1], [2], [3], [4]]\<rparr>]
   \<and> rows \<lparr>dtype_of = ''float32'', ncols = 1, rows = [[1::int], [2], [3], [4]]\<rparr> ! 0
       = rows \<lparr>dtype_of = ''float32'', ncols = 1, rows = [[1::int], [2], [0], [0]]\<rparr> ! 0
   \<and> rows \<lparr>dtype_of = ''float32'', ncols = 1, rows = [[1::int], [2], [3], [4]]\<rparr> ! 1
       = rows \<lparr>dtype_of = ''float32'', ncols = 1, rows = [[1::int], [2], [0], [0]]\<rparr> ! 1
   \<and> store_all (\<lambda>dt x. x) 4 ''float32'' Map.empty
        [[(''main_output'', None, None)],
         [(''main_output'', Some 2, Some \<lparr>dtype_of = ''float64'', ncols = 1, rows = [[1::int], [2]]\<rparr>)],
         [(''main_output'', Some 4, Some \<lparr>dtype_of = ''float64'', ncols = 1, rows = [[3::int], [4]]\<rparr>)]]
     = Inr [''main_output'' \<mapsto> \<lparr>dtype_of = ''float32'', ncols = 1, rows = [[1], [2], [3], [4]]\<rparr>]
   \<and> first_positioned ''main_output''
        [[(''main_output'', None, None)],
         [(''main_output'', Some 2, Some \<lparr>dtype_of = ''float64'', ncols = 1, rows = [[1::int], [2]]\<rparr>)],
         [(''main_output'', Some 4, Some \<lparr>dtype_of = ''float64'', ncols = 1, rows = [[3::int], [4]]\<rparr>)]]
     = Some (''main_output'', Some 2, Some \<lparr>dtype_of = ''float64'', ncols = 1, rows = [[1::int], [2]]\<rparr>)
   \<and> shape0 \<lparr>dtype_of = ''float32'', ncols = 1, rows = [[1::int], [2], [0], [0]]\<rparr> = 4
   \<and> dtype_of \<lparr>dtype_of = ''float32'', ncols = 1, rows = [[1::int], [2], [3], [4]]\<rparr> = ''float32''"
proof -
  let ?k = "''main_output''"
  let ?c1 = "\<lparr>dtype_of = ''float64'', ncols = 1, rows = [[1::int], [2]]\<rparr>"
  let ?c2 = "\<lparr>dtype_of = ''float64'', ncols = 1, rows = [[3::int], [4]]\<rparr>"
  let ?D1 = "\<lparr>dtype_of = ''float32'', ncols = 1, rows = [[1::int], [2], [0], [0]]\<rparr>"
  let ?D2 = "\<lparr>dtype_of = ''float32'', ncols = 1, rows = [[1::int], [2], [3], [4]]\<rparr>"
  let ?ys = "[[(?k, None, None)], [(?k, Some 2, Some ?c1)], [(?k, Some 4, Some ?c2)]]"
  have e1: "store_chunk (\<lambda>dt x. x) 4 ''float32'' Map.empty (?k, Some 2, Some ?c1) = Inr [?k \<mapsto> ?D1]"
    by (simp add: store_chunk_def setslice_def getslice_def slice_index_def zeros_def shape0_def
          shape1_def stored_row_def Let_def numeral_eq_Suc)
  have e4: "store_chunk (\<lambda>dt x. x) 4 ''float32'' [?k \<mapsto> ?D1] (?k, Some 4, Some ?c2) = Inr [?k \<mapsto> ?D2]"
    by (simp add: store_chunk_def setslice_def getslice_def slice_index_def zeros_def shape0_def
          shape1_def stored_row_def Let_def numeral_eq_Suc)
  have e2: "store_all (\<lambda>dt x. x) 4 ''float32'' Map.empty ?ys = Inr [?k \<mapsto> ?D2]"
    by (simp add: e1 e4 store_chunk_null del: One_nat_def)
  have e3: "first_positioned ?k ?ys = Some (?k, Some 2, Some ?c1)"
    by (simp add: first_positioned_def)
  note t = destination_allocated_on_first_position
      [where cast = "\<lambda>dt x. x" and buffer_size = 4 and dtype = "''float32''"
         and online_arrs = Map.empty and k = ?k and p = 2 and c = ?c1
         and r = "[?k \<mapsto> ?D1]" and r' = "[?k \<mapsto> ?D2]" and ys = ?ys]
  note u = destination_allocated_on_first_position
      [where cast = "\<lambda>dt x. x" and buffer_size = 4 and dtype = "''float32''"
         and online_arrs = "[?k \<mapsto> ?D1]" and k = ?k and q = 4 and e = ?c2 and ?d0.0 = ?D1
         and ?r2.0 = "[?k \<mapsto> ?D2]"]
  from t [THEN conjunct2, THEN conjunct1] e1
  have "\<exists>d. [?k \<mapsto> ?D1] ?k = Some d \<and> shape0 d = 4"
    by blast
  then have s: "shape0 ?D1 = 4" by simp
  from t [THEN conjunct2, THEN conjunct2, THEN conjunct1] e2 e3
  have "\<exists>d. [?k \<mapsto> ?D2] ?k = Some d \<and> dtype_of d = ''float32''"
    by (simp only: option.case prod.case) blast
  then have d: "dtype_of ?D2 = ''float32''" by simp
  have some: "[?k \<mapsto> ?D1] ?k = Some ?D1" by simp
  from u [THEN conjunct2, THEN conjunct2, THEN conjunct2, THEN conjunct1] some e4
  obtain d2 where d2: "[?k \<mapsto> ?D2] ?k = Some d2"
    "\<forall>i < shape0 ?D1. i < slice_index (shape0 ?D1) (4 - int (shape0 ?c2))
                      \<or> slice_index (shape0 ?D1) (4 - int (shape0 ?c2)) + shape0 ?c2 \<le> i
                 \<longrightarrow> rows d2 ! i = rows ?D1 ! i"
    by blast
  from d2(1) have d2e: "d2 = ?D2" by simp
  from d2(2) [THEN spec, of 0] have k0: "rows d2 ! 0 = rows ?D1 ! 0"
    by (simp add: shape0_def slice_index_def)
  from d2(2) [THEN spec, of 1] have k1: "rows d2 ! 1 = rows ?D1 ! 1"
    by (simp add: shape0_def slice_index_def)
  from e1 e4 e2 e3 s d k0 [unfolded d2e] k1 [unfolded d2e] show ?thesis by (intro conjI)
qed

section \<open>The scheduler loop\<close>

lemma loop_next_Stop:
  "loop_next proc buf chunksize dtype st = Stop \<longleftrightarrow> \<not> loop_cond (buf_shape0 buf) st"
  by (auto simp: loop_next_def Let_def split: sum.splits option.splits prod.splits)

lemma loop_cond_iff:
  "\<not> loop_cond n st \<longleftrightarrow> (\<exists>p. out_index st = Some p \<and> int n \<le> p)"
  by (auto simp: loop_cond_def split: option.splits)

lemma loop_next_Yield:
  assumes "loop_next proc buf chunksize dtype st = Yield st' r"
  shows "loop_cond (buf_shape0 buf) st \<and> out_index st' = main_position r
         \<and> index st' = index st + chunksize"
  using assms
  by (auto simp: loop_next_def Let_def main_position_def split: sum.splits option.splits prod.splits if_splits)

lemma loop_cond_running:
  "out_index st = main_position r \<Longrightarrow> loop_cond n st = still_running n r"
  by (simp add: loop_cond_def still_running_def)

lemma loop_iter_facts:
  assumes "loop_iter fuel proc buf chunksize dtype st = (ys, stf, en)"
  shows "out_index stf = (if ys = [] then out_index st else main_position (last ys))
       \<and> (en = Finished \<longleftrightarrow> \<not> loop_cond (buf_shape0 buf) stf)
       \<and> (\<forall>r \<in> set (butlast ys). still_running (buf_shape0 buf) r)
       \<and> (ys \<noteq> [] \<longrightarrow> loop_cond (buf_shape0 buf) st)
       \<and> (en = OutOfFuel \<longrightarrow> length ys = fuel)
       \<and> index stf = index st + int (length ys) * chunksize"
  using assms
proof (induction fuel arbitrary: st ys stf en)
  case 0
  then show ?case by (auto split: if_splits)
next
  case (Suc fuel)
  show ?case
  proof (cases "loop_next proc buf chunksize dtype st")
    case Stop
    with Suc.prems loop_next_Stop [of proc buf chunksize dtype st] show ?thesis by auto
  next
    case (Raise e)
    then have "loop_cond (buf_shape0 buf) st"
      using loop_next_Stop [of proc buf chunksize dtype st] by auto
    with Raise Suc.prems show ?thesis by auto
  next
    case (Yield st' r)
    obtain ys' stf' en' where rec: "loop_iter fuel proc buf chunksize dtype st' = (ys', stf', en')"
      by (cases "loop_iter fuel proc buf chunksize dtype st'") auto
    with Yield Suc.prems have eq: "ys = r # ys'" "stf = stf'" "en = en'" by auto
    note ih = Suc.IH [OF rec]
    note y = loop_next_Yield [OF Yield]
    have bl: "\<forall>x \<in> set (butlast (r # ys')). still_running (buf_shape0 buf) x"
    proof (cases "ys' = []")
      case True
      then show ?thesis by simp
    next
      case False
      with ih have "loop_cond (buf_shape0 buf) st'" by simp
      with y have "still_running (buf_shape0 buf) r" by (simp add: loop_cond_running)
      with ih False show ?thesis by simp
    qed
    have ix: "index stf = index st + int (length ys) * chunksize"
      using ih y eq by (simp add: algebra_simps)
    from ih y eq bl ix show ?thesis by auto
  qed
qed

text \<open>
  C2. A resumption of the generator stops exactly when the main output position of
  the last result is there and is at least the nominal length; the index, that is
  how much input was consumed, is not looked at. For the whole loop, at any fuel:
  the loop has finished exactly when it has yielded a result whose main position
  is at least the nominal length, and that result is the last; every earlier
  result has no main position or one before the nominal length; as long as that
  is so and nothing is raised, each unit of fuel gives one more iteration. The
  margin changes neither the adapter nor the generator.
\<close>

theorem loop_ends_on_main_position:
  "(loop_next proc buf chunksize dtype st = Stop
       \<longleftrightarrow> (\<exists>p. out_index st = Some p \<and> int (buf_shape0 buf) \<le> p))
   \<and> (loop proc buf chunksize dtype s0 fuel = (ys, stf, en) \<longrightarrow>
        (en = Finished \<longleftrightarrow>
           ys \<noteq> [] \<and> (\<exists>p. main_position (last ys) = Some p \<and> int (buf_shape0 buf) \<le> p))
        \<and> (\<forall>r \<in> set (butlast ys). still_running (buf_shape0 buf) r)
        \<and> (en = OutOfFuel \<longrightarrow> length ys = fuel))
   \<and> make_processing_loop create proc buf chunksize sample_rate dtype processing_conf margin
       = make_processing_loop create proc buf chunksize sample_rate dtype processing_conf margin'"
proof (intro conjI impI)
  show "loop_next proc buf chunksize dtype st = Stop
       \<longleftrightarrow> (\<exists>p. out_index st = Some p \<and> int (buf_shape0 buf) \<le> p)"
    by (simp add: loop_next_Stop loop_cond_iff)
next
  assume run: "loop proc buf chunksize dtype s0 fuel = (ys, stf, en)"
  let ?st0 = "\<lparr>index = 0, out_index = None, processing = s0\<rparr>"
  show "en = Finished \<longleftrightarrow>
           ys \<noteq> [] \<and> (\<exists>p. main_position (last ys) = Some p \<and> int (buf_shape0 buf) \<le> p)"
  proof (cases "chunksize = 0")
    case True
    with run show ?thesis by (auto simp: loop_def)
  next
    case False
    with run have "loop_iter fuel proc buf chunksize dtype ?st0 = (ys, stf, en)"
      by (simp add: loop_def)
    from loop_iter_facts [OF this] show ?thesis
      by (cases "ys = []") (auto simp: loop_cond_def split: option.splits)
  qed
next
  assume run: "loop proc buf chunksize dtype s0 fuel = (ys, stf, en)"
  let ?st0 = "\<lparr>index = 0, out_index = None, processing = s0\<rparr>"
  show "\<forall>r \<in> set (butlast ys). still_running (buf_shape0 buf) r"
  proof (cases "chunksize = 0")
    case True
    with run show ?thesis by (auto simp: loop_def)
  next
    case False
    with run have "loop_iter fuel proc buf chunksize dtype ?st0 = (ys, stf, en)"
      by (simp add: loop_def)
    from loop_iter_facts [OF this] show ?thesis by simp
  qed
next
  assume run: "loop proc buf chunksize dtype s0 fuel = (ys, stf, en)" and en: "en = OutOfFuel"
  let ?st0 = "\<lparr>index = 0, out_index = None, processing = s0\<rparr>"
  show "length ys = fuel"
  proof (cases "chunksize = 0")
    case True
    with run en show ?thesis by (auto simp: loop_def)
  next
    case False
    with run have "loop_iter fuel proc buf chunksize dtype ?st0 = (ys, stf, en)"
      by (simp add: loop_def)
    from loop_iter_facts [OF this] en show ?thesis by simp
  qed
next
  show "make_processing_loop create proc buf chunksize sample_rate dtype processing_conf margin
       = make_processing_loop create proc buf chunksize sample_rate dtype processing_conf margin'"
    by (simp add: make_processing_loop_def)
qed

text \<open>C2 on 4 rows in chunks of 2 with the pass-through adapter: two iterations, the
  second of which reports position 4.\<close>

theorem loop_ends_on_main_position_witness:
  "loop passthrough
      (numpy_buffer \<lparr>dtype_of = ''float32'', ncols = 1, rows = [[1::int], [2], [3], [4]]\<rparr>)
      2 ''float32'' () 5
    = ([[(''main_output'', Some 2, Some \<lparr>dtype_of = ''float32'', ncols = 1, rows = [[1], [2]]\<rparr>)],
        [(''main_output'', Some 4, Some \<lparr>dtype_of = ''float32'', ncols = 1, rows = [[3], [4]]\<rparr>)]],
       \<lparr>index = 4, out_index = Some 4, processing = ()\<rparr>, Finished)
   \<and> main_position [(''main_output'', Some 4, Some \<lparr>dtype_of = ''float32'', ncols = 1, rows = [[3::int], [4]]\<rparr>)]
       = Some 4
   \<and> still_running 4 [(''main_output'', Some 2, Some \<lparr>dtype_of = ''float32'', ncols = 1, rows = [[1::int], [2]]\<rparr>)]
   \<and> loop_next passthrough
      (numpy_buffer \<lparr>dtype_of = ''float32'', ncols = 1, rows = [[1::int], [2], [3], [4]]\<rparr>)
      2 ''float32'' \<lparr>index = 4, out_index = Some 4, processing = ()\<rparr> = Stop"
proof -
  let ?a = "\<lparr>dtype_of = ''float32'', ncols = 1, rows = [[1::int], [2], [3], [4]]\<rparr>"
  let ?y1 = "[(''main_output'', Some 2, Some \<lparr>dtype_of = ''float32'', ncols = 1, rows = [[1::int], [2]]\<rparr>)]"
  let ?y2 = "[(''main_output'', Some 4, Some \<lparr>dtype_of = ''float32'', ncols = 1, rows = [[3::int], [4]]\<rparr>)]"
  let ?stf = "\<lparr>index = 4, out_index = Some 4, processing = ()\<rparr>"
  have run: "loop passthrough (numpy_buffer ?a) 2 ''float32'' () 5 = ([?y1, ?y2], ?stf, Finished)"
    by (simp add: loop_def loop_next_def loop_cond_def in_chunk_def numpy_buffer_def getslice_def
          slice_index_def shape0_def shape1_def passthrough_def Let_def numeral_eq_Suc
          del: One_nat_def)
  have n: "buf_shape0 (numpy_buffer ?a) = 4" by (simp add: numpy_buffer_def shape0_def)
  note t = loop_ends_on_main_position
     [where proc = passthrough and buf = "numpy_buffer ?a" and chunksize = 2 and dtype = "''float32''"
        and ?s0.0 = "()" and fuel = 5 and ys = "[?y1, ?y2]" and stf = ?stf and en = Finished and st = ?stf]
  note tr = t [THEN conjunct2, THEN conjunct1, THEN mp, OF run]
  from tr have "\<exists>p. main_position (last [?y1, ?y2]) = Some p \<and> int (buf_shape0 (numpy_buffer ?a)) \<le> p"
    by blast
  then have m: "main_position ?y2 = Some 4" by (simp add: main_position_def)
  from tr have "\<forall>r \<in> set (butlast [?y1, ?y2]). still_running (buf_shape0 (numpy_buffer ?a)) r"
    by blast
  then have s: "still_running 4 ?y1"
    by (simp add: numpy_buffer_def shape0_def still_running_def main_position_def)
  from t [THEN conjunct1] have "loop_next passthrough (numpy_buffer ?a) 2 ''float32'' ?stf = Stop"
    by (simp add: numpy_buffer_def shape0_def)
  with run m s show ?thesis by blast
qed

text \<open>
  C5. Two offline runs that differ in the margin only give the same value (the
  same adapter and the same destination buffers, or the same exception, or both
  need more fuel), and their generators yield the same number of results at every
  fuel.
\<close>

theorem margin_is_not_read:
  "run_one_class_offline fuel cast create proc buf chunksize sample_rate dtype processing_conf margin
     = run_one_class_offline fuel cast create proc buf chunksize sample_rate dtype processing_conf margin'
   \<and> map_sum id (\<lambda>(s, loop_fn). length (fst (loop_fn fuel)))
        (make_processing_loop create proc buf chunksize sample_rate dtype processing_conf margin)
     = map_sum id (\<lambda>(s, loop_fn). length (fst (loop_fn fuel)))
        (make_processing_loop create proc buf chunksize sample_rate dtype processing_conf margin')"
  by (simp add: run_one_class_offline_def make_processing_loop_def)

lemma slice_index_inside: "0 \<le> i \<Longrightarrow> i \<le> int n \<Longrightarrow> slice_index n i = nat i"
  by (simp add: slice_index_def)

lemma getslice_inside:
  assumes "0 \<le> i" "0 \<le> l" "i + l \<le> int (shape0 a)"
  shows "getslice a i (i + l) = a\<lparr>rows := take (nat l) (drop (nat i) (rows a))\<rparr>"
proof -
  have "slice_index (shape0 a) i = nat i" "slice_index (shape0 a) (i + l) = nat (i + l)"
    using assms by (simp_all add: slice_index_inside)
  moreover have "nat (i + l) - nat i = nat l" using assms by simp
  ultimately show ?thesis by (simp add: getslice_def Let_def)
qed

lemma shape0_getslice_inside:
  assumes "0 \<le> i" "0 \<le> l" "i + l \<le> int (shape0 a)"
  shows "shape0 (getslice a i (i + l)) = nat l"
  using assms by (simp add: getslice_inside) (simp add: shape0_def)

lemma in_chunk_numpy:
  fixes a :: "('a::zero) ndarray"
  assumes "0 < chunksize" "0 \<le> i"
  shows "in_chunk (numpy_buffer a) chunksize dtype (i + chunksize) =
           Inr (if i + chunksize \<le> int (shape0 a)
                then a\<lparr>rows := take (nat chunksize) (drop (nat i) (rows a))\<rparr>
                else zeros (nat chunksize) (shape1 a) dtype)"
  using assms getslice_inside [of i chunksize a]
  by (simp add: in_chunk_def numpy_buffer_def np_zeros_def)

lemma in_chunk_wave:
  fixes w :: "('a::zero) wavfile"
  assumes "0 < chunksize" "0 \<le> i"
  shows "in_chunk (WaveNumpy cast w) chunksize dtype (i + chunksize) =
           Inr (if i + chunksize \<le> int (length (frames w))
                then \<lparr>dtype_of = ''float32'', ncols = channels w,
                      rows = map (map (cast ''float32'')) (take (nat chunksize) (drop (nat i) (frames w)))\<rparr>
                else zeros (nat chunksize) (channels w) dtype)"
  using assms by (auto simp: in_chunk_def WaveNumpy_def np_zeros_def Let_def)

lemma loop_next_only_reads:
  assumes "in_chunk buf chunksize dtype (index st + chunksize) = Inr c"
      and "proc' (processing st) (index st + chunksize) c = proc (processing st) (index st + chunksize) c"
  shows "loop_next proc' buf chunksize dtype st = loop_next proc buf chunksize dtype st"
  using assms by (simp add: loop_next_def Let_def)

text \<open>
  C3. With a positive chunk size, in a state whose index is not negative, the chunk
  of the iteration is read without an exception and has \<open>chunksize\<close> rows: past
  the nominal length it is the zero block, otherwise it is the slice of the
  source from the old index to the new one; and the adapter is called on that
  chunk at the new index only, since an adapter that agrees with it there gives
  the same iteration. The same holds for a file read through \<^verbatim>\<open>WaveNumpy\<close>. The
  index of every state the loop reaches is the number of iterations times the
  chunk size, so it is never negative.
\<close>

theorem chunk_has_chunksize_rows:
  fixes a :: "('a::zero) ndarray" and w :: "'a wavfile"
  assumes cs: "0 < chunksize" and ix: "0 \<le> index st"
  shows "(\<exists>c. in_chunk (numpy_buffer a) chunksize dtype (index st + chunksize) = Inr c
           \<and> shape0 c = nat chunksize
           \<and> (int (shape0 a) < index st + chunksize \<longrightarrow> c = zeros (nat chunksize) (shape1 a) dtype)
           \<and> (index st + chunksize \<le> int (shape0 a) \<longrightarrow>
                 c = getslice a (index st) (index st + chunksize)
                 \<and> rows c = take (nat chunksize) (drop (nat (index st)) (rows a)))
           \<and> (proc' (processing st) (index st + chunksize) c = proc (processing st) (index st + chunksize) c
                \<longrightarrow> loop_next proc' (numpy_buffer a) chunksize dtype st
                      = loop_next proc (numpy_buffer a) chunksize dtype st))
       \<and> (\<exists>c. in_chunk (WaveNumpy cast w) chunksize dtype (index st + chunksize) = Inr c
           \<and> shape0 c = nat chunksize
           \<and> (int (length (frames w)) < index st + chunksize \<longrightarrow> c = zeros (nat chunksize) (channels w) dtype)
           \<and> (index st + chunksize \<le> int (length (frames w)) \<longrightarrow>
                 rows c = map (map (cast ''float32'')) (take (nat chunksize) (drop (nat (index st)) (frames w)))))
       \<and> (loop proc buf chunksize dtype s0 fuel = (ys, stf, en) \<longrightarrow>
            index stf = int (length ys) * chunksize)"
proof (intro conjI)
  let ?i = "index st"
  let ?c = "if ?i + chunksize \<le> int (shape0 a)
            then a\<lparr>rows := take (nat chunksize) (drop (nat ?i) (rows a))\<rparr>
            else zeros (nat chunksize) (shape1 a) dtype"
  have ic: "in_chunk (numpy_buffer a) chunksize dtype (?i + chunksize) = Inr ?c"
    using in_chunk_numpy [OF cs ix] .
  have len: "shape0 ?c = nat chunksize"
    using cs ix by (auto simp: shape0_def zeros_def)
  have real: "?c = getslice a ?i (?i + chunksize) \<and> rows ?c = take (nat chunksize) (drop (nat ?i) (rows a))"
    if "?i + chunksize \<le> int (shape0 a)"
    using that cs ix getslice_inside [of ?i chunksize a] by simp
  have only: "loop_next proc' (numpy_buffer a) chunksize dtype st
                      = loop_next proc (numpy_buffer a) chunksize dtype st"
    if "proc' (processing st) (?i + chunksize) ?c = proc (processing st) (?i + chunksize) ?c"
    using ic that by (rule loop_next_only_reads)
  show "\<exists>c. in_chunk (numpy_buffer a) chunksize dtype (?i + chunksize) = Inr c
           \<and> shape0 c = nat chunksize
           \<and> (int (shape0 a) < ?i + chunksize \<longrightarrow> c = zeros (nat chunksize) (shape1 a) dtype)
           \<and> (?i + chunksize \<le> int (shape0 a) \<longrightarrow>
                 c = getslice a ?i (?i + chunksize)
                 \<and> rows c = take (nat chunksize) (drop (nat ?i) (rows a)))
           \<and> (proc' (processing st) (?i + chunksize) c = proc (processing st) (?i + chunksize) c
                \<longrightarrow> loop_next proc' (numpy_buffer a) chunksize dtype st
                      = loop_next proc (numpy_buffer a) chunksize dtype st)"
  proof (intro exI [of _ ?c] conjI impI)
    show "in_chunk (numpy_buffer a) chunksize dtype (?i + chunksize) = Inr ?c" by (rule ic)
    show "shape0 ?c = nat chunksize" by (rule len)
    show "?c = zeros (nat chunksize) (shape1 a) dtype" if "int (shape0 a) < ?i + chunksize"
      using that by simp
    show "?c = getslice a ?i (?i + chunksize)" if "?i + chunksize \<le> int (shape0 a)"
      using real [OF that] by blast
    show "rows ?c = take (nat chunksize) (drop (nat ?i) (rows a))" if "?i + chunksize \<le> int (shape0 a)"
      using real [OF that] by blast
    show "loop_next proc' (numpy_buffer a) chunksize dtype st
                      = loop_next proc (numpy_buffer a) chunksize dtype st"
      if "proc' (processing st) (?i + chunksize) ?c = proc (processing st) (?i + chunksize) ?c"
      using that by (rule only)
  qed
next
  let ?i = "index st"
  let ?c = "if ?i + chunksize \<le> int (length (frames w))
                then \<lparr>dtype_of = ''float32'', ncols = channels w,
                      rows = map (map (cast ''float32'')) (take (nat chunksize) (drop (nat ?i) (frames w)))\<rparr>
                else zeros (nat chunksize) (channels w) dtype"
  have ic: "in_chunk (WaveNumpy cast w) chunksize dtype (?i + chunksize) = Inr ?c"
    using in_chunk_wave [OF cs ix] .
  have len: "shape0 ?c = nat chunksize"
    using cs ix by (auto simp: shape0_def zeros_def)
  show "\<exists>c. in_chunk (WaveNumpy cast w) chunksize dtype (?i + chunksize) = Inr c
           \<and> shape0 c = nat chunksize
           \<and> (int (length (frames w)) < ?i + chunksize \<longrightarrow> c = zeros (nat chunksize) (channels w) dtype)
           \<and> (?i + chunksize \<le> int (length (frames w)) \<longrightarrow>
                 rows c = map (map (cast ''float32'')) (take (nat chunksize) (drop (nat ?i) (frames w))))"
    using ic len by (intro exI [of _ ?c]) simp
next
  show "loop proc buf chunksize dtype s0 fuel = (ys, stf, en) \<longrightarrow>
            index stf = int (length ys) * chunksize"
  proof
    assume run: "loop proc buf chunksize dtype s0 fuel = (ys, stf, en)"
    with cs have "loop_iter fuel proc buf chunksize dtype \<lparr>index = 0, out_index = None, processing = s0\<rparr>
                    = (ys, stf, en)"
      by (simp add: loop_def)
    from loop_iter_facts [OF this] show "index stf = int (length ys) * chunksize" by simp
  qed
qed

text \<open>C3 on 4 rows in chunks of 2: the second chunk is rows 2 and 3, the third is
  zero.\<close>

theorem chunk_has_chunksize_rows_witness:
  "in_chunk (numpy_buffer \<lparr>dtype_of = ''float32'', ncols = 1, rows = [[1::int], [2], [3], [4]]\<rparr>)
      2 ''float32'' (index \<lparr>index = 2, out_index = None, processing = ()\<rparr> + 2)
     = Inr \<lparr>dtype_of = ''float32'', ncols = 1, rows = [[3], [4]]\<rparr>
   \<and> shape0 \<lparr>dtype_of = ''float32'', ncols = 1, rows = [[3::int], [4]]\<rparr> = 2
   \<and> in_chunk (numpy_buffer \<lparr>dtype_of = ''float32'', ncols = 1, rows = [[1::int], [2], [3], [4]]\<rparr>)
      2 ''float32'' (index \<lparr>index = 4, out_index = None, processing = ()\<rparr> + 2)
     = Inr (zeros 2 1 ''float32'')"
proof -
  let ?a = "\<lparr>dtype_of = ''float32'', ncols = 1, rows = [[1::int], [2], [3], [4]]\<rparr>"
  let ?c = "\<lparr>dtype_of = ''float32'', ncols = 1, rows = [[3::int], [4]]\<rparr>"
  let ?st = "\<lparr>index = 2, out_index = None, processing = ()\<rparr>"
  let ?st4 = "\<lparr>index = 4, out_index = None, processing = ()\<rparr>"
  have cs: "(0::int) < 2" by simp
  have ix: "0 \<le> index ?st" "0 \<le> index ?st4" by simp_all
  have e: "in_chunk (numpy_buffer ?a) 2 ''float32'' (index ?st + 2) = Inr ?c"
    by (simp add: in_chunk_def numpy_buffer_def getslice_def slice_index_def shape0_def shape1_def
          Let_def numeral_eq_Suc del: One_nat_def)
  from chunk_has_chunksize_rows [OF cs ix(1), where a = ?a and dtype = "''float32''"]
  obtain c where c: "in_chunk (numpy_buffer ?a) 2 ''float32'' (index ?st + 2) = Inr c" "shape0 c = nat 2"
    by blast
  with e have l: "shape0 ?c = 2" by simp
  from chunk_has_chunksize_rows [OF cs ix(2), where a = ?a and dtype = "''float32''"]
  obtain z where z: "in_chunk (numpy_buffer ?a) 2 ''float32'' (index ?st4 + 2) = Inr z"
    "int (shape0 ?a) < index ?st4 + 2 \<longrightarrow> z = zeros (nat 2) (shape1 ?a) ''float32''"
    by blast
  from z(2) have "z = zeros 2 1 ''float32''" by (simp add: shape0_def shape1_def)
  with z(1) e l show ?thesis by simp
qed


section \<open>The pass-through scenario\<close>

lemma passthrough_next:
  fixes a :: "('a::zero) ndarray"
  assumes "0 < chunksize" "0 \<le> index st" "loop_cond (shape0 a) st"
  shows "loop_next passthrough (numpy_buffer a) chunksize dtype st =
           Yield \<lparr>index = index st + chunksize, out_index = Some (index st + chunksize),
                  processing = processing st\<rparr>
             [(''main_output'', Some (index st + chunksize),
               Some (if index st + chunksize \<le> int (shape0 a)
                     then a\<lparr>rows := take (nat chunksize) (drop (nat (index st)) (rows a))\<rparr>
                     else zeros (nat chunksize) (shape1 a) dtype))]"
proof -
  have "buf_shape0 (numpy_buffer a) = shape0 a" by (simp add: numpy_buffer_def)
  with assms in_chunk_numpy [OF assms(1,2), of a dtype] show ?thesis
    by (simp add: loop_next_def passthrough_def Let_def)
qed

lemma loop_iter_done:
  assumes "\<not> loop_cond (buf_shape0 buf) st"
  shows "loop_iter fuel proc buf chunksize dtype st = ([], st, Finished)"
  using assms loop_next_Stop [of proc buf chunksize dtype st]
  by (cases fuel) simp_all

lemma stored_row_same:
  "dtype_of v = dt \<Longrightarrow> ncols v = c \<Longrightarrow> stored_row cast dt c v = (\<lambda>r. r)"
  by (rule ext) (simp add: stored_row_def)

lemma store_tile:
  fixes a :: "('a::zero) ndarray"
  assumes fit: "j + m \<le> shape0 a"
      and c: "c = a\<lparr>rows := take m (drop j (rows a))\<rparr>"
      and dst: "dst = (case online_arrs k of None \<Rightarrow> zeros (shape0 a) (shape1 c) (dtype_of a) | Some d \<Rightarrow> d)"
      and filled: "dst = \<lparr>dtype_of = dtype_of a, ncols = ncols a,
                    rows = take j (rows a) @ replicate (shape0 a - j) (replicate (ncols a) 0)\<rparr>"
  shows "store_chunk cast (shape0 a) (dtype_of a) online_arrs (k, Some (int (j + m)), Some c) =
           Inr (online_arrs(k \<mapsto> \<lparr>dtype_of = dtype_of a, ncols = ncols a,
                    rows = take (j + m) (rows a) @ replicate (shape0 a - (j + m)) (replicate (ncols a) 0)\<rparr>))"
proof -
  let ?z = "replicate (ncols a) (0::'a)"
  have lc: "shape0 c = m" using fit c by (simp add: shape0_def)
  have ld: "shape0 dst = shape0 a" using fit filled by (simp add: shape0_def)
  have start: "int (j + m) - int (shape0 c) = int j" by (simp add: lc)
  have g: "shape0 (getslice dst (int (j + m) - int (shape0 c)) (int (j + m))) = shape0 c"
    unfolding start using shape0_getslice_inside [of "int j" "int m" dst] fit
    by (simp add: ld lc)
  have nc: "ncols c = ncols dst \<or> ncols c = 1" using c filled by simp
  have lo: "slice_index (shape0 dst) (int (j + m) - int (shape0 c)) = j"
    unfolding start ld using fit by (simp add: slice_index_inside)
  have new: "map (stored_row cast (dtype_of dst) (ncols dst) c) (rows c) = take m (drop j (rows a))"
    using c filled by (simp add: stored_row_same)
  have rows': "take j (rows dst) @ take m (drop j (rows a)) @ drop (j + m) (rows dst)
              = take (j + m) (rows a) @ replicate (shape0 a - (j + m)) ?z"
  proof -
    have jl: "j \<le> length (rows a)" using fit by (simp add: shape0_def)
    have "take j (rows dst) = take j (rows a)" using jl filled by simp
    moreover have "drop (j + m) (rows dst) = replicate (shape0 a - (j + m)) ?z"
      using jl filled by (simp add: shape0_def)
    moreover have "take j (rows a) @ take m (drop j (rows a)) = take (j + m) (rows a)"
      by (simp add: take_add)
    ultimately show ?thesis by simp
  qed
  have upd: "dst\<lparr>rows := R\<rparr> = \<lparr>dtype_of = dtype_of a, ncols = ncols a, rows = R\<rparr>" for R
    using filled by simp
  from dst g nc have "store_chunk cast (shape0 a) (dtype_of a) online_arrs (k, Some (int (j + m)), Some c) =
           Inr (online_arrs(k \<mapsto> dst\<lparr>rows :=
                  take (slice_index (shape0 dst) (int (j + m) - int (shape0 c))) (rows dst)
                  @ map (stored_row cast (dtype_of dst) (ncols dst) c) (rows c)
                  @ drop (slice_index (shape0 dst) (int (j + m) - int (shape0 c)) + shape0 c) (rows dst)\<rparr>))"
    by (rule store_chunk_written)
  also have "dst\<lparr>rows :=
                  take (slice_index (shape0 dst) (int (j + m) - int (shape0 c))) (rows dst)
                  @ map (stored_row cast (dtype_of dst) (ncols dst) c) (rows c)
                  @ drop (slice_index (shape0 dst) (int (j + m) - int (shape0 c)) + shape0 c) (rows dst)\<rparr>
            = \<lparr>dtype_of = dtype_of a, ncols = ncols a,
                    rows = take (j + m) (rows a) @ replicate (shape0 a - (j + m)) ?z\<rparr>"
    by (simp only: lo new lc lo [unfolded lc] rows' upd)
  finally show ?thesis .
qed


text \<open>
  C4. A buffer of 2048 rows and one channel, whose dtype is the dtype of the run,
  in chunks of 512 through the pass-through adapter: with 4 units of fuel or more
  the loop yields exactly 4 results and finishes, their main positions are 512,
  1024, 1536 and 2048 in that order, each carries the slice of the input that ends
  there, and the offline run returns the input itself as the buffer of the main
  output.
\<close>

theorem passthrough_scenario:
  fixes a :: "('a::zero) ndarray"
  assumes len: "shape0 a = 2048" and ch: "ncols a = 1" and dt: "dtype_of a = dtype"
  shows "loop passthrough (numpy_buffer a) 512 dtype s0 (4 + fuel)
           = ([[(''main_output'', Some 512, Some (getslice a 0 512))],
               [(''main_output'', Some 1024, Some (getslice a 512 1024))],
               [(''main_output'', Some 1536, Some (getslice a 1024 1536))],
               [(''main_output'', Some 2048, Some (getslice a 1536 2048))]],
              \<lparr>index = 2048, out_index = Some 2048, processing = s0\<rparr>, Finished)
       \<and> run_one_class_offline (4 + fuel) cast (\<lambda>nb_channel sample_rate dtype conf. Inr s0) passthrough
            (numpy_buffer a) 512 sample_rate dtype conf margin
           = Some (Inr (s0, [''main_output'' \<mapsto> a]))"
proof -
  let ?C = "\<lambda>j. a\<lparr>rows := take 512 (drop j (rows a))\<rparr>"
  let ?D = "\<lambda>j. \<lparr>dtype_of = dtype_of a, ncols = ncols a,
                 rows = take j (rows a) @ replicate (shape0 a - j) (replicate (ncols a) (0::'a))\<rparr>"
  let ?k = "''main_output''"
  let ?ys = "[[(?k, Some 512, Some (?C 0))], [(?k, Some 1024, Some (?C 512))],
              [(?k, Some 1536, Some (?C 1024))], [(?k, Some 2048, Some (?C 1536))]]"
  let ?st = "\<lambda>i. \<lparr>index = i, out_index = Some i, processing = s0\<rparr>"
  let ?buf = "numpy_buffer a"
  have n: "buf_shape0 ?buf = 2048" by (simp add: numpy_buffer_def len)
  have g: "getslice a 0 512 = ?C 0" "getslice a 512 1024 = ?C 512"
          "getslice a 1024 1536 = ?C 1024" "getslice a 1536 2048 = ?C 1536"
    using getslice_inside [of 0 512 a] getslice_inside [of 512 512 a]
      getslice_inside [of 1024 512 a] getslice_inside [of 1536 512 a]
    by (simp_all add: len)
  have s1: "loop_next passthrough ?buf 512 dtype \<lparr>index = 0, out_index = None, processing = s0\<rparr>
              = Yield (?st 512) [(?k, Some 512, Some (?C 0))]"
    using passthrough_next [of 512 "\<lparr>index = 0, out_index = None, processing = s0\<rparr>" a dtype]
    by (simp add: loop_cond_def len)
  have s2: "loop_next passthrough ?buf 512 dtype (?st 512) = Yield (?st 1024) [(?k, Some 1024, Some (?C 512))]"
    using passthrough_next [of 512 "?st 512" a dtype]
    by (simp add: loop_cond_def len)
  have s3: "loop_next passthrough ?buf 512 dtype (?st 1024) = Yield (?st 1536) [(?k, Some 1536, Some (?C 1024))]"
    using passthrough_next [of 512 "?st 1024" a dtype]
    by (simp add: loop_cond_def len)
  have s4: "loop_next passthrough ?buf 512 dtype (?st 1536) = Yield (?st 2048) [(?k, Some 2048, Some (?C 1536))]"
    using passthrough_next [of 512 "?st 1536" a dtype]
    by (simp add: loop_cond_def len)
  have s5: "loop_iter fuel passthrough ?buf 512 dtype (?st 2048) = ([], ?st 2048, Finished)"
    by (rule loop_iter_done) (simp add: loop_cond_def n)
  have fuel: "4 + fuel = Suc (Suc (Suc (Suc fuel)))" by simp
  have run: "loop passthrough ?buf 512 dtype s0 (4 + fuel) = (?ys, ?st 2048, Finished)"
    unfolding loop_def fuel by (simp add: s1 s2 s3 s4 s5)
  have d0: "zeros (shape0 a) (shape1 (?C 0)) (dtype_of a) = ?D 0"
    by (simp add: zeros_def shape1_def)
  have t1: "store_chunk cast (shape0 a) (dtype_of a) Map.empty (?k, Some 512, Some (?C 0))
              = Inr [?k \<mapsto> ?D 512]"
    using store_tile [where j = 0 and m = 512 and a = a and c = "?C 0" and dst = "?D 0"
                        and online_arrs = Map.empty and k = ?k and cast = cast] d0
    by (simp add: len)
  have t2: "store_chunk cast (shape0 a) (dtype_of a) [?k \<mapsto> ?D 512] (?k, Some 1024, Some (?C 512))
              = Inr [?k \<mapsto> ?D 1024]"
    using store_tile [where j = 512 and m = 512 and a = a and c = "?C 512" and dst = "?D 512"
                        and online_arrs = "[?k \<mapsto> ?D 512]" and k = ?k and cast = cast]
    by (simp add: len)
  have t3: "store_chunk cast (shape0 a) (dtype_of a) [?k \<mapsto> ?D 1024] (?k, Some 1536, Some (?C 1024))
              = Inr [?k \<mapsto> ?D 1536]"
    using store_tile [where j = 1024 and m = 512 and a = a and c = "?C 1024" and dst = "?D 1024"
                        and online_arrs = "[?k \<mapsto> ?D 1024]" and k = ?k and cast = cast]
    by (simp add: len)
  have t4: "store_chunk cast (shape0 a) (dtype_of a) [?k \<mapsto> ?D 1536] (?k, Some 2048, Some (?C 1536))
              = Inr [?k \<mapsto> ?D 2048]"
    using store_tile [where j = 1536 and m = 512 and a = a and c = "?C 1536" and dst = "?D 1536"
                        and online_arrs = "[?k \<mapsto> ?D 1536]" and k = ?k and cast = cast]
    by (simp add: len)
  have full: "?D 2048 = a"
    using len by (simp add: shape0_def)
  have st: "store_all cast (shape0 a) (dtype_of a) Map.empty ?ys = Inr [?k \<mapsto> a]"
    by (simp only: store_all.simps store_returns.simps t1 t2 t3 t4 full sum.case)
  have off: "run_one_class_offline (4 + fuel) cast (\<lambda>nb_channel sample_rate dtype conf. Inr s0) passthrough
            ?buf 512 sample_rate dtype conf margin = Some (Inr (s0, [?k \<mapsto> a]))"
    using st run dt by (simp add: run_one_class_offline_def make_processing_loop_def n len)
  from run off show ?thesis by (simp only: g)
qed


text \<open>C4 on the buffer whose row \<open>i\<close> holds the sample \<open>i\<close>.\<close>

theorem passthrough_scenario_witness:
  "shape0 \<lparr>dtype_of = ''float32'', ncols = 1, rows = map (\<lambda>i. [int i]) [0..<2048]\<rparr> = 2048
   \<and> map main_position
        (fst (loop passthrough
               (numpy_buffer \<lparr>dtype_of = ''float32'', ncols = 1, rows = map (\<lambda>i. [int i]) [0..<2048]\<rparr>)
               512 ''float32'' () (4 + 0)))
       = [Some 512, Some 1024, Some 1536, Some 2048]
   \<and> run_one_class_offline (4 + 0) (\<lambda>dt x. x) (\<lambda>nb_channel sample_rate dtype conf. Inr ()) passthrough
        (numpy_buffer \<lparr>dtype_of = ''float32'', ncols = 1, rows = map (\<lambda>i. [int i]) [0..<2048]\<rparr>)
        512 (16000::nat) ''float32'' () 0
       = Some (Inr ((), [''main_output'' \<mapsto>
                           \<lparr>dtype_of = ''float32'', ncols = 1, rows = map (\<lambda>i. [int i]) [0..<2048]\<rparr>]))"
proof -
  let ?a = "\<lparr>dtype_of = ''float32'', ncols = 1, rows = map (\<lambda>i. [int i]) [0..<2048]\<rparr>"
  have l: "shape0 ?a = 2048" by (simp add: shape0_def)
  have c: "ncols ?a = 1" and d: "dtype_of ?a = ''float32''" by simp_all
  note t = passthrough_scenario [OF l c d, where fuel = 0 and ?s0.0 = "()" and cast = "\<lambda>dt x. x"
             and sample_rate = "16000::nat" and conf = "()" and margin = 0]
  from t [THEN conjunct1]
  have p: "map main_position (fst (loop passthrough (numpy_buffer ?a) 512 ''float32'' () (4 + 0)))
             = [Some 512, Some 1024, Some 1536, Some 2048]"
    by (simp add: main_position_def)
  from l p t [THEN conjunct2] show ?thesis by (intro conjI)
qed


section \<open>The shape of the output of compute_numpy\<close>


















section \<open>The duration limit of compute_wave_file\<close>










section \<open>The preconditions of compute_wave_file\<close>

text \<open>
  C8. Without the sound file library, \<^verbatim>\<open>compute_wave_file\<close> raises the assertion
  error with the message that names the library, and with equal file names it
  raises an assertion error without message. Both happen whatever the fuel, the
  adapter and the configuration are, so before any file is opened, any chunk read
  and the adapter built, and the file system is left as it was: there is no
  output file.
\<close>

theorem compute_wave_file_fails_first:
  "(\<not> has_soundfile \<longrightarrow>
      compute_wave_file fuel cast reaches has_soundfile create proc in_filename out_filename duration_limit
        params fs
        = Some (Inl (AssertionError ''soundfile need to be installed''), fs))
   \<and> (has_soundfile \<and> in_filename = out_filename \<longrightarrow>
      compute_wave_file fuel cast reaches has_soundfile create proc in_filename out_filename duration_limit
        params fs
        = Some (Inl (AssertionError []), fs))
   \<and> AssertionError ''soundfile need to be installed'' \<noteq> AssertionError []"
  by (simp add: compute_wave_file_def)

text \<open>C8 on a file system with one file, first without the library, then with the
  input name as output name.\<close>

theorem compute_wave_file_fails_first_witness:
  "compute_wave_file 0 (\<lambda>dt x. x) exact_reaches False (\<lambda>nb sr dt conf. Inr ()) passthrough
      ''in.wav'' ''out.wav'' None
      \<lparr>p_chunksize = Some 2, p_backward_chunksize = Some 2, p_loss_params = Some [(''left'', ())],
       p_others = ()\<rparr>
      [''in.wav'' \<mapsto> \<lparr>samplerate = 4, channels = 1, frames = [[1], [2::int]]\<rparr>]
     = Some (Inl (AssertionError ''soundfile need to be installed''),
             [''in.wav'' \<mapsto> \<lparr>samplerate = 4, channels = 1, frames = [[1], [2::int]]\<rparr>])
   \<and> compute_wave_file 0 (\<lambda>dt x. x) exact_reaches True (\<lambda>nb sr dt conf. Inr ()) passthrough
      ''in.wav'' ''in.wav'' None
      \<lparr>p_chunksize = Some 2, p_backward_chunksize = Some 2, p_loss_params = Some [(''left'', ())],
       p_others = ()\<rparr>
      [''in.wav'' \<mapsto> \<lparr>samplerate = 4, channels = 1, frames = [[1], [2::int]]\<rparr>]
     = Some (Inl (AssertionError []),
             [''in.wav'' \<mapsto> \<lparr>samplerate = 4, channels = 1, frames = [[1], [2::int]]\<rparr>])"
  using compute_wave_file_fails_first
          [where has_soundfile = False and fuel = 0 and cast = "\<lambda>dt x. x" and reaches = exact_reaches
             and create = "\<lambda>nb sr dt conf. Inr ()" and proc = passthrough
             and in_filename = "''in.wav''" and out_filename = "''out.wav''" and duration_limit = None
             and params = "\<lparr>p_chunksize = Some 2, p_backward_chunksize = Some 2,
                              p_loss_params = Some [(''left'', ())], p_others = ()\<rparr>"
             and fs = "[''in.wav'' \<mapsto> \<lparr>samplerate = 4, channels = 1, frames = [[1], [2::int]]\<rparr>]"]
        compute_wave_file_fails_first
          [where has_soundfile = True and fuel = 0 and cast = "\<lambda>dt x. x" and reaches = exact_reaches
             and create = "\<lambda>nb sr dt conf. Inr ()" and proc = passthrough
             and in_filename = "''in.wav''" and out_filename = "''in.wav''" and duration_limit = None
             and params = "\<lparr>p_chunksize = Some 2, p_backward_chunksize = Some 2,
                              p_loss_params = Some [(''left'', ())], p_others = ()\<rparr>"
             and fs = "[''in.wav'' \<mapsto> \<lparr>samplerate = 4, channels = 1, frames = [[1], [2::int]]\<rparr>]"]
  by simp

text \<open>By contrast, a failure after the two assertions leaves the output file behind:
  here the configuration lacks the chunk size.\<close>

lemma compute_wave_file_late_failure:
  "compute_wave_file fuel cast reaches True create proc ''in.wav'' ''out.wav'' duration_limit
      \<lparr>p_chunksize = None, p_backward_chunksize = bc, p_loss_params = lp, p_others = others\<rparr>
      [''in.wav'' \<mapsto> \<lparr>samplerate = 4, channels = 1, frames = []\<rparr>]
     = Some (Inl (KeyError ''chunksize''),
             [''in.wav'' \<mapsto> \<lparr>samplerate = 4, channels = 1, frames = []\<rparr>,
              ''out.wav'' \<mapsto> \<lparr>samplerate = 4, channels = 1, frames = []\<rparr>])"
  by (simp add: compute_wave_file_def Let_def)

end
